theory Spec2Isabelle
  imports Main "HOL-Library.AList" "HOL-Library.Product_Lexorder" "HOL-Library.List_Lexorder"
begin

section \<open>Values, errors and dictionaries\<close>

text \<open>
  The events resource (\<^verbatim>\<open>manager_rest/rest/resources_v1/events.py\<close>) handles Python
  values: \<^verbatim>\<open>None\<close>, booleans, integers, strings, \<^verbatim>\<open>datetime\<close> objects, lists and dictionaries.
  A \<^verbatim>\<open>datetime\<close> is the naive (timezone-free) value the store returns for a timestamp
  column, with the seven fields of Python's constructor.
\<close>

datatype datetime =
  datetime (year: nat) (month: nat) (day: nat) (hour: nat) (minute: nat) (second: nat)
    (microsecond: nat)

datatype pyval =
    PNone
  | PBool bool
  | PInt int
  | PStr string
  | PDatetime datetime
  | PList "pyval list"
  | PDict "(string \<times> pyval) list"

text \<open>
  A dictionary is an association list with one entry per key; its order stands for the
  (unspecified) iteration order of the Python dictionary.
\<close>

type_synonym pydict = "(string \<times> pyval) list"

datatype error =
    BadParametersError string
  | KeyError string
  | TypeError string
  | AttributeError string
  | ArgumentError string
  | DatabaseError string

definition and_then :: "error + 'a \<Rightarrow> ('a \<Rightarrow> error + 'b) \<Rightarrow> error + 'b" where
  "and_then r f = (case r of Inl e \<Rightarrow> Inl e | Inr v \<Rightarrow> f v)"

text \<open>\<^verbatim>\<open>d[k]\<close>, \<^verbatim>\<open>d[k] = v\<close> and \<^verbatim>\<open>del d[k]\<close>; reading or deleting a missing key raises.\<close>

definition getitem :: "pydict \<Rightarrow> string \<Rightarrow> error + pyval" where
  "getitem d k = (case map_of d k of None \<Rightarrow> Inl (KeyError k) | Some v \<Rightarrow> Inr v)"

definition setitem :: "pydict \<Rightarrow> string \<Rightarrow> pyval \<Rightarrow> pydict" where
  "setitem d k v = AList.update k v d"

definition delitem :: "pydict \<Rightarrow> string \<Rightarrow> error + pydict" where
  "delitem d k = (case map_of d k of None \<Rightarrow> Inl (KeyError k) | Some v \<Rightarrow> Inr (AList.delete k d))"

text \<open>\<^verbatim>\<open>{field: d[field] for field in fields}\<close>, the entries collected in \<open>acc\<close>.\<close>

fun getitems :: "pydict \<Rightarrow> pydict \<Rightarrow> string list \<Rightarrow> error + pydict" where
  "getitems d acc [] = Inr acc"
| "getitems d acc (f # fs) = and_then (getitem d f) (\<lambda>v. getitems d (setitem acc f v) fs)"

text \<open>\<^verbatim>\<open>for field in fields: del d[field]\<close>\<close>

fun delitems :: "pydict \<Rightarrow> string list \<Rightarrow> error + pydict" where
  "delitems d [] = Inr d"
| "delitems d (f # fs) = and_then (delitem d f) (\<lambda>d'. delitems d' fs)"

section \<open>Rendering timestamps\<close>

text \<open>
  \<^verbatim>\<open>datetime.isoformat()\<close> of a naive value: \<^verbatim>\<open>"%04d-%02d-%02dT%02d:%02d:%02d"\<close>, followed by
  \<^verbatim>\<open>".%06d"\<close> of the microseconds only when they are not zero.
\<close>

definition digit :: "nat \<Rightarrow> char" where
  "digit n = ''0123456789'' ! (n mod 10)"

fun decimal :: "nat \<Rightarrow> string" where
  "decimal n = (if n < 10 then [digit n] else decimal (n div 10) @ [digit n])"

declare decimal.simps [simp del]

definition zero_padded :: "nat \<Rightarrow> nat \<Rightarrow> string" where
  "zero_padded w n = replicate (w - length (decimal n)) (CHR ''0'') @ decimal n"

definition isoformat :: "datetime \<Rightarrow> string" where
  "isoformat d =
     zero_padded 4 (year d) @ ''-'' @ zero_padded 2 (month d) @ ''-'' @ zero_padded 2 (day d)
     @ ''T'' @ zero_padded 2 (hour d) @ '':'' @ zero_padded 2 (minute d) @ '':''
     @ zero_padded 2 (second d)
     @ (if microsecond d \<noteq> 0 then ''.'' @ zero_padded 6 (microsecond d) else [])"

text \<open>\<^verbatim>\<open>'{}Z'.format(value.isoformat()[:-3])\<close>, applied to the values that are datetimes.\<close>

definition format_timestamp :: "datetime \<Rightarrow> string" where
  "format_timestamp d = take (length (isoformat d) - 3) (isoformat d) @ ''Z''"

fun render :: "pyval \<Rightarrow> pyval" where
  "render (PDatetime d) = PStr (format_timestamp d)"
| "render v = v"

section \<open>The result mapper\<close>

text \<open>
  \<^verbatim>\<open>Events._map_event_to_es(_include, sql_event)\<close>. The row \<open>sql_event\<close> is the keyed tuple
  the store returns: its keys with their values, in column order. Every subscript of the
  source that can raise \<^verbatim>\<open>KeyError\<close> is a branch here.
\<close>

definition context_fields :: "string list" where
  "context_fields = [''deployment_id'', ''operation'', ''node_id'']"

definition map_event_to_es :: "string list option \<Rightarrow> pydict \<Rightarrow> error + pydict" where
  "map_event_to_es include sql_event =
     (let event = foldl (\<lambda>d (attr, v). setitem d attr v) [] sql_event in
      and_then (getitem event ''timestamp'') (\<lambda>ts.
      let event = setitem event ''@timestamp'' ts in
      and_then (getitem event ''message'') (\<lambda>m.
      let message = [(''text'', m)];
          event = setitem event ''message'' (PDict message) in
      and_then (getitems event [] context_fields) (\<lambda>ctx.
      let event = setitem event ''context'' (PDict ctx) in
      and_then (delitems event context_fields) (\<lambda>event.
      and_then (getitem event ''type'') (\<lambda>ty.
      and_then
        (if ty = PStr ''cloudify_event'' then
           and_then
             (delitem (setitem event ''message'' (PDict (setitem message ''arguments'' PNone)))
                ''logger'')
             (\<lambda>event. delitem event ''level'')
         else if ty = PStr ''cloudify_log'' then delitem event ''event_type''
         else Inr event)
        (\<lambda>event.
      let event = map (\<lambda>(key, v). (key, render v)) event in
      Inr (case include of
             None \<Rightarrow> event
           | Some keys \<Rightarrow> filter (\<lambda>(key, v). key \<in> set keys) event))))))))"

text \<open>
  The test of the projection, \<^verbatim>\<open>_include is None or key in _include\<close>: the keys that the
  last step of the mapper retains.
\<close>

definition included :: "string list option \<Rightarrow> string \<Rightarrow> bool" where
  "included include key = (case include of None \<Rightarrow> True | Some keys \<Rightarrow> key \<in> set keys)"

section \<open>Query plans\<close>

text \<open>
  The queries are built with SQLAlchemy's generative interface and are plain values until
  they are executed. A plan records what each call of the source adds: the selected
  expressions with their names, the criteria of \<^verbatim>\<open>filter\<close>, the two sides of \<^verbatim>\<open>union\<close>, the
  keys of \<^verbatim>\<open>order_by\<close> and the bound parameters of \<^verbatim>\<open>limit\<close> and \<^verbatim>\<open>offset\<close>.
\<close>

datatype model = Event | Log | Execution | Deployment

datatype expr =
    Column model string
  | LiteralColumn string
  | CountStar

datatype criterion =
    Eq expr expr
  | In expr pyval
  | Ge expr pyval
  | Le expr pyval
  | Const bool

datatype order_clause = asc string | desc string

datatype bindparam = BindParam string

text \<open>A query before any \<^verbatim>\<open>union\<close>: \<^verbatim>\<open>db.session.query(...)\<close> followed by \<^verbatim>\<open>filter\<close> calls.\<close>

record select =
  columns :: "(expr \<times> string) list"
  criteria :: "criterion list"

datatype source = Plain select | Union select select

text \<open>The query that is sorted and windowed: one select, or the union of two.\<close>

record query =
  source :: source
  order_by :: "order_clause list"
  limit :: "bindparam option"
  offset :: "bindparam option"

text \<open>
  The count query selects a column of a subquery, or the sum of two such columns:
  \<^verbatim>\<open>q.subquery().c.count\<close> and \<^verbatim>\<open>+\<close>.
\<close>

datatype scalar_query =
    SubqueryColumn select string
  | Add scalar_query scalar_query

definition session_query :: "(expr \<times> string) list \<Rightarrow> select" where
  "session_query cols = \<lparr>columns = cols, criteria = []\<rparr>"

definition filter_query :: "select \<Rightarrow> criterion list \<Rightarrow> select" where
  "filter_query q cs = q\<lparr>criteria := criteria q @ cs\<rparr>"

text \<open>\<^verbatim>\<open>Model.attr\<close> is named after the attribute; \<^verbatim>\<open>expr.label(name)\<close> is named \<open>name\<close>.\<close>

definition attribute :: "model \<Rightarrow> string \<Rightarrow> expr \<times> string" where
  "attribute m a = (Column m a, a)"

definition label :: "expr \<Rightarrow> string \<Rightarrow> expr \<times> string" where
  "label e name = (e, name)"

definition plain :: "select \<Rightarrow> query" where
  "plain q = \<lparr>source = Plain q, order_by = [], limit = None, offset = None\<rparr>"

definition union :: "select \<Rightarrow> select \<Rightarrow> query" where
  "union q logs_query = \<lparr>source = Union q logs_query, order_by = [], limit = None, offset = None\<rparr>"

text \<open>The names in \<^verbatim>\<open>query.column_descriptions\<close>; a union has the names of its first side.\<close>

definition column_descriptions :: "query \<Rightarrow> string list" where
  "column_descriptions q =
     (case source q of Plain s \<Rightarrow> map snd (columns s) | Union s t \<Rightarrow> map snd (columns s))"

text \<open>
  The model classes \<^verbatim>\<open>Event\<close>, \<^verbatim>\<open>Log\<close>, \<^verbatim>\<open>Execution\<close> and \<^verbatim>\<open>Deployment\<close> are declared in
  \<^verbatim>\<open>manager_rest.storage.resource_models\<close>, which the sources do not include, so the
  attributes of the classes are a parameter \<open>classes\<close> of the compiler. An attribute of a
  class is a mapped column, whose comparisons are SQL expressions, or anything else that the
  class has (a method, \<^verbatim>\<open>__class__\<close>, \<^verbatim>\<open>metadata\<close>, a relationship), whose comparisons
  \<^verbatim>\<open>>=\<close> and \<^verbatim>\<open><=\<close> with a value are whatever Python makes of them: an exception, or an
  object that \<^verbatim>\<open>filter\<close> takes as a criterion.
\<close>

datatype attribute =
    MappedColumn
  | Other "pyval \<Rightarrow> error + criterion" "pyval \<Rightarrow> error + criterion"

type_synonym classes = "model \<Rightarrow> string \<Rightarrow> attribute option"

definition hasattr :: "classes \<Rightarrow> model \<Rightarrow> string \<Rightarrow> bool" where
  "hasattr classes m field = (classes m field \<noteq> None)"

text \<open>
  \<^verbatim>\<open>None\<close>, \<^verbatim>\<open>True\<close> and \<^verbatim>\<open>False\<close>: SQLAlchemy compares a column with them by \<^verbatim>\<open>=\<close>, \<^verbatim>\<open>!=\<close>
  and \<^verbatim>\<open>IS\<close> only, and raises \<^verbatim>\<open>ArgumentError\<close> for any other operator, when the expression is
  built.
\<close>

fun python_is_type :: "pyval \<Rightarrow> bool" where
  "python_is_type PNone = True"
| "python_is_type (PBool b) = True"
| "python_is_type v = False"

text \<open>\<^verbatim>\<open>getattr(model, field) >= v\<close> and \<^verbatim>\<open>getattr(model, field) <= v\<close>\<close>

definition attribute_ge :: "classes \<Rightarrow> model \<Rightarrow> string \<Rightarrow> pyval \<Rightarrow> error + criterion" where
  "attribute_ge classes m field v =
     (case classes m field of
        None \<Rightarrow> Inl (AttributeError field)
      | Some MappedColumn \<Rightarrow>
          if python_is_type v then
            Inl (ArgumentError ''Only = and != can be used with None/True/False'')
          else Inr (Ge (Column m field) v)
      | Some (Other ge le) \<Rightarrow> ge v)"

definition attribute_le :: "classes \<Rightarrow> model \<Rightarrow> string \<Rightarrow> pyval \<Rightarrow> error + criterion" where
  "attribute_le classes m field v =
     (case classes m field of
        None \<Rightarrow> Inl (AttributeError field)
      | Some MappedColumn \<Rightarrow>
          if python_is_type v then
            Inl (ArgumentError ''Only = and != can be used with None/True/False'')
          else Inr (Le (Column m field) v)
      | Some (Other ge le) \<Rightarrow> le v)"

section \<open>Python's membership test and \<^verbatim>\<open>lstrip\<close>\<close>

definition is_substring :: "string \<Rightarrow> string \<Rightarrow> bool" where
  "is_substring t s = list_ex (\<lambda>i. take (length t) (drop i s) = t) [0..<Suc (length s)]"

text \<open>\<^verbatim>\<open>x in c\<close>: an element of a list, a key of a dictionary, a substring of a string.\<close>

fun contains :: "pyval \<Rightarrow> pyval \<Rightarrow> error + bool" where
  "contains (PList xs) x = Inr (x \<in> set xs)"
| "contains (PDict d) x = Inr (case x of PStr k \<Rightarrow> map_of d k \<noteq> None | _ \<Rightarrow> False)"
| "contains (PStr s) x =
     (case x of
        PStr t \<Rightarrow> Inr (is_substring t s)
      | _ \<Rightarrow> Inl (TypeError ''in <string> requires string as left operand''))"
| "contains c x = Inl (TypeError ''argument is not iterable'')"

definition lstrip :: "char \<Rightarrow> string \<Rightarrow> string" where
  "lstrip c s = dropWhile (\<lambda>x. x = c) s"

section \<open>The query compiler\<close>

definition ALLOWED_FILTERS :: "(model \<times> string) list" where
  "ALLOWED_FILTERS = [(Execution, ''execution_id''), (Deployment, ''deployment_id'')]"

text \<open>\<^verbatim>\<open>Events._apply_filters(query, filters)\<close>\<close>

definition apply_filters :: "select \<Rightarrow> pydict \<Rightarrow> select" where
  "apply_filters query filters =
     foldl (\<lambda>query (model, field).
              case map_of filters field of
                Some v \<Rightarrow> filter_query query [In (Column model ''id'') v]
              | None \<Rightarrow> query)
       query ALLOWED_FILTERS"

text \<open>
  \<^verbatim>\<open>Events._apply_sort(query, sort)\<close>. The sort criteria are the items of the dictionary, in
  its iteration order; \<open>column_names\<close> is computed once, before the loop.
\<close>

fun apply_sort_loop :: "string set \<Rightarrow> query \<Rightarrow> pydict \<Rightarrow> error + query" where
  "apply_sort_loop column_names query [] = Inr query"
| "apply_sort_loop column_names query ((field, ord) # sort') =
     (let field = lstrip (CHR ''@'') field in
      if field \<notin> column_names then
        Inl (BadParametersError (''Unknown field to sort by: '' @ field))
      else
        let order_func = (if ord = PStr ''asc'' then asc else desc) in
        apply_sort_loop column_names
          (query\<lparr>order_by := order_by query @ [order_func field]\<rparr>) sort')"

definition apply_sort :: "query \<Rightarrow> pydict \<Rightarrow> error + query" where
  "apply_sort query sort' = apply_sort_loop (set (column_descriptions query)) query sort'"

text \<open>\<^verbatim>\<open>Events._apply_range_filter(query, model, field, range_filter)\<close>\<close>

definition apply_range_filter ::
  "classes \<Rightarrow> select \<Rightarrow> model \<Rightarrow> string \<Rightarrow> pydict \<Rightarrow> error + select" where
  "apply_range_filter classes query model field range_filter =
     and_then
       (case map_of range_filter ''from'' of
          Some v \<Rightarrow>
            and_then (attribute_ge classes model field v) (\<lambda>c. Inr (filter_query query [c]))
        | None \<Rightarrow> Inr query)
       (\<lambda>query.
          case map_of range_filter ''to'' of
            Some v \<Rightarrow>
              and_then (attribute_le classes model field v) (\<lambda>c. Inr (filter_query query [c]))
          | None \<Rightarrow> Inr query)"

text \<open>\<^verbatim>\<open>Events._apply_range_filters(query, model, range_filters)\<close>\<close>

fun apply_range_filters ::
  "classes \<Rightarrow> select \<Rightarrow> model \<Rightarrow> (string \<times> pydict) list \<Rightarrow> error + select" where
  "apply_range_filters classes query model [] = Inr query"
| "apply_range_filters classes query model ((field, range_filter) # range_filters) =
     (let field = lstrip (CHR ''@'') field in
      if \<not> hasattr classes model field then
        Inl (BadParametersError (''Unknown field to filter by range: '' @ field))
      else
        and_then (apply_range_filter classes query model field range_filter)
          (\<lambda>query. apply_range_filters classes query model range_filters))"

text \<open>
  The criteria that the two functions add do not depend on the query: those of one range
  filter, and those of all, or the first error.
\<close>

definition range_filter_criteria ::
  "classes \<Rightarrow> model \<Rightarrow> string \<Rightarrow> pydict \<Rightarrow> error + criterion list" where
  "range_filter_criteria classes model field range_filter =
     and_then
       (case map_of range_filter ''from'' of
          Some v \<Rightarrow> and_then (attribute_ge classes model field v) (\<lambda>c. Inr [c])
        | None \<Rightarrow> Inr [])
       (\<lambda>cs.
          case map_of range_filter ''to'' of
            Some v \<Rightarrow> and_then (attribute_le classes model field v) (\<lambda>c. Inr (cs @ [c]))
          | None \<Rightarrow> Inr cs)"

fun range_criteria ::
  "classes \<Rightarrow> model \<Rightarrow> (string \<times> pydict) list \<Rightarrow> error + criterion list" where
  "range_criteria classes model [] = Inr []"
| "range_criteria classes model ((field, range_filter) # range_filters) =
     (let field = lstrip (CHR ''@'') field in
      if \<not> hasattr classes model field then
        Inl (BadParametersError (''Unknown field to filter by range: '' @ field))
      else
        and_then (range_filter_criteria classes model field range_filter) (\<lambda>cs.
        and_then (range_criteria classes model range_filters) (\<lambda>cs'. Inr (cs @ cs'))))"

text \<open>The SQL text of a string literal, as in \<^verbatim>\<open>literal_column("'cloudify_event'")\<close>.\<close>

definition quoted :: "string \<Rightarrow> string" where
  "quoted s = [CHR 0x27] @ s @ [CHR 0x27]"

text \<open>
  The four queries that the builders start from: the projection of the events and of the
  logs to the common columns, and their counts, each joined to its execution and to the
  deployment of that execution.
\<close>

definition select_events :: select where
  "select_events =
     filter_query
       (session_query
          [label (Column Event ''timestamp'') ''timestamp'',
           label (Column Deployment ''id'') ''deployment_id'',
           attribute Event ''message'',
           attribute Event ''message_code'',
           attribute Event ''event_type'',
           attribute Event ''operation'',
           attribute Event ''node_id'',
           label (LiteralColumn ''NULL'') ''logger'',
           label (LiteralColumn ''NULL'') ''level'',
           label (LiteralColumn (quoted ''cloudify_event'')) ''type''])
       [Eq (Column Event ''_execution_fk'') (Column Execution ''_storage_id''),
        Eq (Column Execution ''_deployment_fk'') (Column Deployment ''_storage_id'')]"

definition select_logs :: select where
  "select_logs =
     filter_query
       (session_query
          [label (Column Log ''timestamp'') ''timestamp'',
           label (Column Deployment ''id'') ''deployment_id'',
           attribute Log ''message'',
           label (LiteralColumn ''NULL'') ''message_code'',
           label (LiteralColumn ''NULL'') ''event_type'',
           attribute Log ''operation'',
           attribute Log ''node_id'',
           attribute Log ''logger'',
           attribute Log ''level'',
           label (LiteralColumn (quoted ''cloudify_log'')) ''type''])
       [Eq (Column Log ''_execution_fk'') (Column Execution ''_storage_id''),
        Eq (Column Execution ''_deployment_fk'') (Column Deployment ''_storage_id'')]"

definition count_events :: select where
  "count_events =
     filter_query (session_query [label CountStar ''count''])
       [Eq (Column Event ''_execution_fk'') (Column Execution ''_storage_id''),
        Eq (Column Execution ''_deployment_fk'') (Column Deployment ''_storage_id'')]"

definition count_logs :: select where
  "count_logs =
     filter_query (session_query [label CountStar ''count''])
       [Eq (Column Log ''_execution_fk'') (Column Execution ''_storage_id''),
        Eq (Column Execution ''_deployment_fk'') (Column Deployment ''_storage_id'')]"

text \<open>
  \<^verbatim>\<open>Events._build_select_query(filters, pagination, sort, range_filters)\<close>. The argument
  \<open>pagination\<close> is not read: the window is the pair of bound parameters.
\<close>

definition build_select_query ::
  "classes \<Rightarrow> pyval \<Rightarrow> pydict \<Rightarrow> pydict \<Rightarrow> (string \<times> pydict) list \<Rightarrow> error + query" where
  "build_select_query classes filters pagination sort' range_filters =
     (case filters of
        PDict fd \<Rightarrow>
          (case map_of fd ''type'' of
             None \<Rightarrow> Inl (BadParametersError ''Filter by type is expected'')
           | Some ty \<Rightarrow>
               and_then (contains ty (PStr ''cloudify_event'')) (\<lambda>has_event.
               if \<not> has_event then
                 Inl (BadParametersError ''At least `type=cloudify_event` filter is expected'')
               else
                 let query = select_events;
                     query = apply_filters query fd
                 in
                 and_then (apply_range_filters classes query Event range_filters) (\<lambda>query.
                 and_then (contains ty (PStr ''cloudify_log'')) (\<lambda>has_log.
                 and_then
                   (if has_log then
                      let logs_query = select_logs;
                          logs_query = apply_filters logs_query fd
                      in
                      and_then (apply_range_filters classes logs_query Log range_filters)
                        (\<lambda>logs_query. Inr (union query logs_query))
                    else Inr (plain query))
                   (\<lambda>query.
                 and_then (apply_sort query sort') (\<lambda>query.
                 Inr (query\<lparr>limit := Some (BindParam ''limit''),
                            offset := Some (BindParam ''offset'')\<rparr>)))))))
      | _ \<Rightarrow> Inl (BadParametersError ''Filter by type is expected''))"

text \<open>\<^verbatim>\<open>Events._build_count_query(filters, range_filters)\<close>\<close>

definition build_count_query ::
  "classes \<Rightarrow> pyval \<Rightarrow> (string \<times> pydict) list \<Rightarrow> error + scalar_query" where
  "build_count_query classes filters range_filters =
     (case filters of
        PDict fd \<Rightarrow>
          (case map_of fd ''type'' of
             None \<Rightarrow> Inl (BadParametersError ''Filter by type is expected'')
           | Some ty \<Rightarrow>
               and_then (contains ty (PStr ''cloudify_event'')) (\<lambda>has_event.
               if \<not> has_event then
                 Inl (BadParametersError ''At least `type=cloudify_event` filter is expected'')
               else
                 let events_query = count_events;
                     events_query = apply_filters events_query fd
                 in
                 and_then (apply_range_filters classes events_query Event range_filters)
                   (\<lambda>events_query.
                 and_then (contains ty (PStr ''cloudify_log'')) (\<lambda>has_log.
                 if has_log then
                   let logs_query = count_logs;
                       logs_query = apply_filters logs_query fd
                   in
                   and_then (apply_range_filters classes logs_query Log range_filters) (\<lambda>logs_query.
                   Inr (Add (SubqueryColumn events_query ''count'')
                          (SubqueryColumn logs_query ''count'')))
                 else Inr (SubqueryColumn events_query ''count'')))))
      | _ \<Rightarrow> Inl (BadParametersError ''Filter by type is expected''))"

section \<open>The relational store\<close>

text \<open>
  The persistence collaborator of the spec: four tables of rows, each row giving the
  values of its attributes, and the execution of a plan against them. A plan ranges over
  the tables of the models that its columns and criteria mention, as SQLAlchemy derives
  the \<^verbatim>\<open>FROM\<close> clause; \<^verbatim>\<open>UNION\<close> is the set union of SQL, which keeps one copy of each
  row. The store compares a column value with a bound by its own \<^verbatim>\<open><=\<close>, with the casts it
  applies to the bound: \<open>store_le d a b\<close> is the store's \<^verbatim>\<open>a <= b\<close>, and \<^verbatim>\<open>a >= b\<close> is
  \<^verbatim>\<open>b <= a\<close>.
\<close>

record db =
  events_table :: "pydict list"
  logs_table :: "pydict list"
  executions_table :: "pydict list"
  deployments_table :: "pydict list"
  store_le :: "pyval \<Rightarrow> pyval \<Rightarrow> bool"

fun table :: "db \<Rightarrow> model \<Rightarrow> pydict list" where
  "table d Event = events_table d"
| "table d Log = logs_table d"
| "table d Execution = executions_table d"
| "table d Deployment = deployments_table d"

type_synonym env = "(model \<times> pydict) list"

fun envs :: "db \<Rightarrow> model list \<Rightarrow> env list" where
  "envs d [] = [[]]"
| "envs d (m # ms) = concat (map (\<lambda>e. map (\<lambda>env. (m, e) # env) (envs d ms)) (table d m))"

text \<open>The two literals that the source writes: \<^verbatim>\<open>NULL\<close> and a quoted string.\<close>

definition literal_value :: "string \<Rightarrow> pyval" where
  "literal_value t =
     (if 2 \<le> length t \<and> hd t = CHR 0x27 \<and> last t = CHR 0x27 then PStr (butlast (tl t))
      else PNone)"

text \<open>The value of a column in a row; a column that the row does not give is \<^verbatim>\<open>NULL\<close>.\<close>

definition column_value :: "pydict \<Rightarrow> string \<Rightarrow> pyval" where
  "column_value r a = (case map_of r a of None \<Rightarrow> PNone | Some v \<Rightarrow> v)"

fun eval :: "env \<Rightarrow> expr \<Rightarrow> pyval" where
  "eval env (Column m a) =
     (case map_of env m of None \<Rightarrow> PNone | Some e \<Rightarrow> column_value e a)"
| "eval env (LiteralColumn t) = literal_value t"
| "eval env CountStar = PNone"

definition datetime_fields :: "datetime \<Rightarrow> int list" where
  "datetime_fields t =
     map int [year t, month t, day t, hour t, minute t, second t, microsecond t]"

fun holds :: "db \<Rightarrow> env \<Rightarrow> criterion \<Rightarrow> bool" where
  "holds d env (Eq a b) = (eval env a \<noteq> PNone \<and> eval env a = eval env b)"
| "holds d env (In a vs) =
     (case vs of PList xs \<Rightarrow> eval env a \<noteq> PNone \<and> eval env a \<in> set xs | _ \<Rightarrow> False)"
| "holds d env (Ge a v) = store_le d v (eval env a)"
| "holds d env (Le a v) = store_le d (eval env a) v"
| "holds d env (Const b) = b"

fun expr_models :: "expr \<Rightarrow> model list" where
  "expr_models (Column m a) = [m]"
| "expr_models e = []"

fun criterion_models :: "criterion \<Rightarrow> model list" where
  "criterion_models (Eq a b) = expr_models a @ expr_models b"
| "criterion_models (In a vs) = expr_models a"
| "criterion_models (Ge a v) = expr_models a"
| "criterion_models (Le a v) = expr_models a"
| "criterion_models (Const b) = []"

definition froms :: "select \<Rightarrow> model list" where
  "froms s =
     filter
       (\<lambda>m. m \<in> set (concat (map (\<lambda>(e, name). expr_models e) (columns s))
                     @ concat (map criterion_models (criteria s))))
       [Event, Log, Execution, Deployment]"

definition matches :: "db \<Rightarrow> select \<Rightarrow> env list" where
  "matches d s = filter (\<lambda>env. list_all (holds d env) (criteria s)) (envs d (froms s))"

definition aggregate :: "select \<Rightarrow> bool" where
  "aggregate s = list_ex (\<lambda>(e, name). e = CountStar) (columns s)"

text \<open>
  The rows of a select, each a keyed tuple in column order. A select of \<^verbatim>\<open>count(*)\<close> has
  one row, holding the number of matching combinations.
\<close>

definition rows_of :: "db \<Rightarrow> select \<Rightarrow> pydict list" where
  "rows_of d s =
     (if aggregate s then
        [map (\<lambda>(e, name).
                (name, if e = CountStar then PInt (int (length (matches d s))) else PNone))
           (columns s)]
      else map (\<lambda>env. map (\<lambda>(e, name). (name, eval env e)) (columns s)) (matches d s))"

text \<open>
  \<^verbatim>\<open>ORDER BY\<close>: the rows are compared key by key, the first key being the most significant;
  \<^verbatim>\<open>NULL\<close> sorts after every value in ascending order. The sort is a stable insertion sort.
\<close>

fun collation_key :: "pyval \<Rightarrow> nat \<times> int list" where
  "collation_key (PInt i) = (0, [i])"
| "collation_key (PStr s) = (1, map of_char s)"
| "collation_key (PDatetime t) = (2, datetime_fields t)"
| "collation_key (PList xs) = (3, [])"
| "collation_key (PDict d) = (4, [])"
| "collation_key (PBool b) = (5, [if b then 1 else 0])"
| "collation_key PNone = (6, [])"

definition row_key :: "string \<Rightarrow> pydict \<Rightarrow> nat \<times> int list" where
  "row_key f r = collation_key (column_value r f)"

fun row_le :: "order_clause list \<Rightarrow> pydict \<Rightarrow> pydict \<Rightarrow> bool" where
  "row_le [] a b = True"
| "row_le (asc f # os) a b =
     (row_key f a < row_key f b \<or> (row_key f a = row_key f b \<and> row_le os a b))"
| "row_le (desc f # os) a b =
     (row_key f b < row_key f a \<or> (row_key f a = row_key f b \<and> row_le os a b))"

fun insert_row :: "order_clause list \<Rightarrow> pydict \<Rightarrow> pydict list \<Rightarrow> pydict list" where
  "insert_row os r [] = [r]"
| "insert_row os r (x # xs) =
     (if row_le os r x then r # x # xs else x # insert_row os r xs)"

definition order_rows :: "order_clause list \<Rightarrow> pydict list \<Rightarrow> pydict list" where
  "order_rows os rows = foldr (insert_row os) rows []"

text \<open>
  The value bound to the parameter of \<^verbatim>\<open>LIMIT\<close> or \<^verbatim>\<open>OFFSET\<close>: a number of rows, or nothing
  when the clause is absent or its value is \<^verbatim>\<open>NULL\<close>. The store rejects a negative number.
\<close>

definition bound_value :: "pydict \<Rightarrow> bindparam option \<Rightarrow> error + nat option" where
  "bound_value params p =
     (case p of
        None \<Rightarrow> Inr None
      | Some (BindParam name) \<Rightarrow>
          (case map_of params name of
             None \<Rightarrow> Inl (DatabaseError (''A value is required for bind parameter '' @ name))
           | Some PNone \<Rightarrow> Inr None
           | Some (PInt n) \<Rightarrow>
               if n < 0 then Inl (DatabaseError (name @ '' must not be negative''))
               else Inr (Some (nat n))
           | Some v \<Rightarrow> Inl (DatabaseError (''invalid value for '' @ name))))"

text \<open>The rows of one select, or the set union of the rows of two.\<close>

definition source_rows :: "db \<Rightarrow> source \<Rightarrow> pydict list" where
  "source_rows d src =
     (case src of
        Plain s \<Rightarrow> rows_of d s
      | Union s t \<Rightarrow> remdups (rows_of d s @ rows_of d t))"

text \<open>\<^verbatim>\<open>OFFSET\<close> skips rows, then \<^verbatim>\<open>LIMIT\<close> bounds their number.\<close>

definition window :: "nat option \<Rightarrow> nat option \<Rightarrow> pydict list \<Rightarrow> pydict list" where
  "window lim off rows =
     (let rows = (case off of None \<Rightarrow> rows | Some n \<Rightarrow> drop n rows)
      in case lim of None \<Rightarrow> rows | Some n \<Rightarrow> take n rows)"

text \<open>\<^verbatim>\<open>query.params(**params).all()\<close>\<close>

definition run_all :: "db \<Rightarrow> pydict \<Rightarrow> query \<Rightarrow> error + pydict list" where
  "run_all d params q =
     and_then (bound_value params (limit q)) (\<lambda>lim.
     and_then (bound_value params (offset q)) (\<lambda>off.
     Inr (window lim off (order_rows (order_by q) (source_rows d (source q))))))"

text \<open>
  \<^verbatim>\<open>query.params(**params).scalar()\<close> of a count query: the named column of the single row
  of each subquery, and their sum.
\<close>

fun eval_scalar :: "db \<Rightarrow> scalar_query \<Rightarrow> error + int" where
  "eval_scalar d (SubqueryColumn s name) =
     (case rows_of d s of
        [r] \<Rightarrow>
          (case map_of r name of
             Some (PInt n) \<Rightarrow> Inr n
           | _ \<Rightarrow> Inl (DatabaseError (''no integer column '' @ name)))
      | _ \<Rightarrow> Inl (DatabaseError ''the subquery does not have one row''))"
| "eval_scalar d (Add a b) =
     and_then (eval_scalar d a) (\<lambda>x. and_then (eval_scalar d b) (\<lambda>y. Inr (x + y)))"

definition run_scalar :: "db \<Rightarrow> pydict \<Rightarrow> scalar_query \<Rightarrow> error + int" where
  "run_scalar d params q = eval_scalar d q"

section \<open>Listing events\<close>

fun map_all :: "('a \<Rightarrow> error + 'b) \<Rightarrow> 'a list \<Rightarrow> error + 'b list" where
  "map_all f [] = Inr []"
| "map_all f (x # xs) = and_then (f x) (\<lambda>y. and_then (map_all f xs) (\<lambda>ys. Inr (y # ys)))"

text \<open>
  The second half of \<^verbatim>\<open>Events._query_events\<close>, from the assignment of \<^verbatim>\<open>params\<close> on, as a
  function of the store and of the locals \<open>filters\<close>, \<open>pagination\<close>, \<open>sort\<close> and
  \<open>range_filters\<close> that the first half computes from the request, and of the model classes.
  Beside the outcome it returns the number of statements sent to the store.
\<close>

definition query_events ::
  "classes \<Rightarrow> db \<Rightarrow> pyval \<Rightarrow> pydict \<Rightarrow> pydict \<Rightarrow> (string \<times> pydict) list \<Rightarrow>
     (error + pyval) \<times> nat" where
  "query_events classes d filters pagination sort' range_filters =
     (case and_then (getitem pagination ''size'') (\<lambda>size.
           and_then (getitem pagination ''offset'') (\<lambda>off.
           Inr [(''limit'', size), (''offset'', off)])) of
        Inl e \<Rightarrow> (Inl e, 0)
      | Inr params \<Rightarrow>
     (case build_count_query classes filters range_filters of
        Inl e \<Rightarrow> (Inl e, 0)
      | Inr count_query \<Rightarrow>
     (case run_scalar d params count_query of
        Inl e \<Rightarrow> (Inl e, 1)
      | Inr total' \<Rightarrow>
     (case build_select_query classes filters pagination sort' range_filters of
        Inl e \<Rightarrow> (Inl e, 1)
      | Inr select_query \<Rightarrow>
     (case run_all d params select_query of
        Inl e \<Rightarrow> (Inl e, 2)
      | Inr rows \<Rightarrow>
     (case map_all (map_event_to_es None) rows of
        Inl e \<Rightarrow> (Inl e, 2)
      | Inr events \<Rightarrow>
          (Inr (PDict
                  [(''hits'',
                    PDict
                      [(''hits'', PList (map (\<lambda>event. PDict [(''_source'', PDict event)]) events)),
                       (''total'', PInt total')])]),
           2)))))))"

section \<open>A small store\<close>

text \<open>
  Two deployments with one execution each. The first execution has two events that agree
  on every projected column, and one log; the second has one event, stamped on a full
  second.
\<close>

definition example_event :: "datetime \<Rightarrow> string \<Rightarrow> int \<Rightarrow> pydict" where
  "example_event t m fk =
     [(''timestamp'', PDatetime t), (''message'', PStr m), (''message_code'', PNone),
      (''event_type'', PStr ''workflow_started''), (''operation'', PNone), (''node_id'', PNone),
      (''_execution_fk'', PInt fk)]"

definition example_log :: "datetime \<Rightarrow> string \<Rightarrow> int \<Rightarrow> pydict" where
  "example_log t m fk =
     [(''timestamp'', PDatetime t), (''message'', PStr m), (''operation'', PStr ''create''),
      (''node_id'', PStr ''vm''), (''logger'', PStr ''ctx''), (''level'', PStr ''info''),
      (''_execution_fk'', PInt fk)]"

text \<open>
  Modelled from the spec: the mapped columns of the model classes, which are the fields of
  the spec's data model and the key columns that the events resource names. The classes of
  the example have no other attribute.
\<close>

fun model_attributes :: "model \<Rightarrow> string list" where
  "model_attributes Event =
     [''timestamp'', ''message'', ''message_code'', ''event_type'', ''operation'', ''node_id'',
      ''_execution_fk'']"
| "model_attributes Log =
     [''timestamp'', ''message'', ''operation'', ''node_id'', ''logger'', ''level'',
      ''_execution_fk'']"
| "model_attributes Execution = [''id'', ''_storage_id'', ''_deployment_fk'']"
| "model_attributes Deployment = [''id'', ''_storage_id'']"

definition example_classes :: classes where
  "example_classes m field =
     (if field \<in> set (model_attributes m) then Some MappedColumn else None)"

text \<open>
  The comparison of the example store. Two integers, two strings and two timestamps compare
  in their own order. A string compared with a timestamp is read as a timestamp when it is
  written in ISO 8601, \<^verbatim>\<open>YYYY-MM-DD\<close> alone or followed by \<^verbatim>\<open>T\<close> or a space and \<^verbatim>\<open>HH:MM:SS\<close>,
  then by a fraction of one to six digits if any, then by \<^verbatim>\<open>Z\<close> if any. No other pair of
  values compares.
\<close>

definition digit_value :: "char \<Rightarrow> nat option" where
  "digit_value c =
     map_of [(CHR ''0'', 0), (CHR ''1'', 1), (CHR ''2'', 2), (CHR ''3'', 3), (CHR ''4'', 4),
             (CHR ''5'', 5), (CHR ''6'', 6), (CHR ''7'', 7), (CHR ''8'', 8), (CHR ''9'', 9)] c"

fun number_from :: "nat \<Rightarrow> string \<Rightarrow> nat option" where
  "number_from n [] = Some n"
| "number_from n (c # cs) =
     (case digit_value c of None \<Rightarrow> None | Some k \<Rightarrow> number_from (10 * n + k) cs)"

definition number :: "string \<Rightarrow> nat option" where
  "number s = (if s = [] then None else number_from 0 s)"

definition parse_date :: "string \<Rightarrow> (nat \<times> nat \<times> nat) option" where
  "parse_date s =
     (if length s = 10 \<and> s ! 4 = CHR ''-'' \<and> s ! 7 = CHR ''-'' then
        (case (number (take 4 s), number (take 2 (drop 5 s)), number (drop 8 s)) of
           (Some y, Some m, Some d) \<Rightarrow> Some (y, m, d)
         | _ \<Rightarrow> None)
      else None)"

definition parse_time :: "string \<Rightarrow> (nat \<times> nat \<times> nat \<times> nat) option" where
  "parse_time s =
     (if 8 \<le> length s \<and> s ! 2 = CHR '':'' \<and> s ! 5 = CHR '':'' then
        (case (number (take 2 s), number (take 2 (drop 3 s)), number (take 2 (drop 6 s))) of
           (Some h, Some m, Some sec) \<Rightarrow>
             (let fraction = drop 8 s in
              if fraction = [] then Some (h, m, sec, 0)
              else if hd fraction = CHR ''.'' \<and> length fraction \<le> 7 then
                (case number (tl fraction) of
                   Some f \<Rightarrow> Some (h, m, sec, f * 10 ^ (7 - length fraction))
                 | None \<Rightarrow> None)
              else None)
         | _ \<Rightarrow> None)
      else None)"

definition parse_timestamp :: "string \<Rightarrow> datetime option" where
  "parse_timestamp s =
     (let s = (if s \<noteq> [] \<and> last s = CHR ''Z'' then butlast s else s) in
      case parse_date (take 10 s) of
        None \<Rightarrow> None
      | Some (y, m, d) \<Rightarrow>
          if length s = 10 then Some (datetime y m d 0 0 0 0)
          else if s ! 10 = CHR ''T'' \<or> s ! 10 = CHR '' '' then
            (case parse_time (drop 11 s) of
               None \<Rightarrow> None
             | Some (h, mi, sec, us) \<Rightarrow> Some (datetime y m d h mi sec us))
          else None)"

fun timestamp_of :: "pyval \<Rightarrow> datetime option" where
  "timestamp_of (PDatetime t) = Some t"
| "timestamp_of (PStr s) = parse_timestamp s"
| "timestamp_of v = None"

fun sql_le :: "pyval \<Rightarrow> pyval \<Rightarrow> bool" where
  "sql_le (PInt a) (PInt b) = (a \<le> b)"
| "sql_le (PStr a) (PStr b) = (map of_char a \<le> (map of_char b :: nat list))"
| "sql_le (PDatetime a) b =
     (case timestamp_of b of
        Some t \<Rightarrow> datetime_fields a \<le> datetime_fields t
      | None \<Rightarrow> False)"
| "sql_le a (PDatetime b) =
     (case timestamp_of a of
        Some t \<Rightarrow> datetime_fields t \<le> datetime_fields b
      | None \<Rightarrow> False)"
| "sql_le a b = False"

definition example_store :: db where
  "example_store =
     \<lparr>events_table =
        [example_event (datetime 2024 1 2 3 4 5 123456) ''started'' 1,
         example_event (datetime 2024 1 2 3 4 5 123456) ''started'' 1,
         example_event (datetime 2024 1 2 3 4 6 0) ''done'' 2],
      logs_table = [example_log (datetime 2024 1 2 3 4 5 500000) ''creating'' 1],
      executions_table =
        [[(''id'', PStr ''exec1''), (''_storage_id'', PInt 1), (''_deployment_fk'', PInt 7)],
         [(''id'', PStr ''exec2''), (''_storage_id'', PInt 2), (''_deployment_fk'', PInt 8)]],
      deployments_table =
        [[(''id'', PStr ''dep1''), (''_storage_id'', PInt 7)],
         [(''id'', PStr ''dep2''), (''_storage_id'', PInt 8)]],
      store_le = sql_le\<rparr>"

text \<open>The filters that ask for the events and the logs of the first execution.\<close>

definition example_filters :: pydict where
  "example_filters =
     [(''type'', PList [PStr ''cloudify_event'', PStr ''cloudify_log'']),
      (''execution_id'', PList [PStr ''exec1''])]"

section \<open>Sorting\<close>

lemma apply_sort_loop_eq:
  "apply_sort_loop names q srt =
     (case find (\<lambda>(field, ord). lstrip (CHR ''@'') field \<notin> names) srt of
        Some (field, ord) \<Rightarrow>
          Inl (BadParametersError (''Unknown field to sort by: '' @ lstrip (CHR ''@'') field))
      | None \<Rightarrow>
          Inr (q\<lparr>order_by := order_by q @
                 map (\<lambda>(field, ord). (if ord = PStr ''asc'' then asc else desc)
                        (lstrip (CHR ''@'') field)) srt\<rparr>))"
proof (induction srt arbitrary: q)
  case Nil
  show ?case by simp
next
  case (Cons entry srt)
  obtain field ord where entry: "entry = (field, ord)" by (cases entry)
  show ?case
    by (simp add: entry Cons.IH Let_def split: option.splits)
qed



lemma set_insert_row: "set (insert_row os r xs) = insert r (set xs)"
  by (induction xs) auto



lemma length_insert_row: "length (insert_row os r xs) = Suc (length xs)"
  by (induction xs) auto

lemma length_order_rows: "length (order_rows os rows) = length rows"
  unfolding order_rows_def by (induction rows) (simp_all add: length_insert_row)

lemma set_order_rows: "set (order_rows os rows) = set rows"
  unfolding order_rows_def by (induction rows) (simp_all add: set_insert_row)

section \<open>The criteria that the compiler adds\<close>

lemma apply_range_filter_eq:
  "apply_range_filter classes q m f r =
     (case range_filter_criteria classes m f r of
        Inl e \<Rightarrow> Inl e
      | Inr cs \<Rightarrow> Inr (q\<lparr>criteria := criteria q @ cs\<rparr>))"
  by (simp add: apply_range_filter_def range_filter_criteria_def and_then_def filter_query_def
      split: option.splits sum.splits)

lemma apply_range_filters_eq:
  "apply_range_filters classes q m rf =
     (case range_criteria classes m rf of
        Inl e \<Rightarrow> Inl e
      | Inr cs \<Rightarrow> Inr (q\<lparr>criteria := criteria q @ cs\<rparr>))"
proof (induction rf arbitrary: q)
  case Nil
  show ?case by simp
next
  case (Cons entry rf)
  obtain field r where entry: "entry = (field, r)" by (cases entry)
  show ?case
    by (simp add: entry Cons.IH Let_def apply_range_filter_eq and_then_def split: sum.splits)
qed

lemma apply_filters_eq:
  "apply_filters q fd =
     q\<lparr>criteria := criteria q
         @ (case map_of fd ''execution_id'' of
              Some v \<Rightarrow> [In (Column Execution ''id'') v] | None \<Rightarrow> [])
         @ (case map_of fd ''deployment_id'' of
              Some v \<Rightarrow> [In (Column Deployment ''id'') v] | None \<Rightarrow> [])\<rparr>"
  by (simp add: apply_filters_def ALLOWED_FILTERS_def filter_query_def split: option.splits)

lemma envs_lookup:
  "env \<in> set (envs d ms) \<Longrightarrow>
     map_of env m = None \<or> (\<exists>e \<in> set (table d m). map_of env m = Some e)"
  by (induction ms arbitrary: env) fastforce+

lemma column_descriptions_select_events:
  "column_descriptions (plain select_events) =
     [''timestamp'', ''deployment_id'', ''message'', ''message_code'', ''event_type'',
      ''operation'', ''node_id'', ''logger'', ''level'', ''type'']"
  by (simp add: column_descriptions_def plain_def select_events_def filter_query_def
      session_query_def label_def attribute_def)

lemma order_by_plain: "order_by (plain s) = []"
  by (simp add: plain_def)

section \<open>Sort validation and sort direction\<close>



text \<open>
  Claim C10. When every field name of the sort specification passes the validation,
  \<^verbatim>\<open>_apply_sort\<close> raises nothing, whatever the directions are, and each entry whose direction
  is not exactly the string \<^verbatim>\<open>asc\<close> (so \<^verbatim>\<open>desc\<close>, \<^verbatim>\<open>DESC\<close>, the empty string, any other
  string or value) becomes a descending key.
\<close>

theorem sort_direction_desc_unless_asc:
  assumes "\<forall>(field, ord) \<in> set sort'.
             lstrip (CHR ''@'') field \<in> set (column_descriptions query)"
  shows "\<exists>q. apply_sort query sort' = Inr q
           \<and> order_by q = order_by query @
               map (\<lambda>(field, ord).
                      if ord = PStr ''asc'' then asc (lstrip (CHR ''@'') field)
                      else desc (lstrip (CHR ''@'') field)) sort'"
proof -
  have "find (\<lambda>(field, ord). lstrip (CHR ''@'') field \<notin> set (column_descriptions query)) sort'
          = None"
    using assms by (auto simp: find_None_iff)
  then show ?thesis
    by (auto simp: apply_sort_def apply_sort_loop_eq split: prod.splits)
qed

theorem sort_direction_desc_unless_asc_witness:
  "list_all (\<lambda>(field, ord).
       lstrip (CHR ''@'') field \<in> set (column_descriptions (plain select_events)))
     [(''timestamp'', PStr ''DESC''), (''message'', PStr ''''),
      (''type'', PStr ''asc''), (''level'', PStr ''ascending''), (''logger'', PNone)]
   \<and> (\<exists>q. apply_sort (plain select_events)
              [(''timestamp'', PStr ''DESC''), (''message'', PStr ''''),
               (''type'', PStr ''asc''), (''level'', PStr ''ascending''), (''logger'', PNone)]
            = Inr q
          \<and> order_by q =
              [desc ''timestamp'', desc ''message'', asc ''type'', desc ''level'',
               desc ''logger''])"
proof -
  have h: "\<forall>(field, ord) \<in> set [(''timestamp'', PStr ''DESC''), (''message'', PStr ''''),
        (''type'', PStr ''asc''), (''level'', PStr ''ascending''), (''logger'', PNone)].
      lstrip (CHR ''@'') field \<in> set (column_descriptions (plain select_events))"
    by (simp add: column_descriptions_select_events lstrip_def)
  from sort_direction_desc_unless_asc [OF h] h show ?thesis
    by (simp add: lstrip_def order_by_plain)
qed

section \<open>What a successful build returns\<close>

lemma apply_sort_source:
  "apply_sort q srt = Inr q' \<Longrightarrow>
     source q' = source q \<and> limit q' = limit q \<and> offset q' = offset q
     \<and> order_by q' = order_by q @
          map (\<lambda>(field, ord). (if ord = PStr ''asc'' then asc else desc)
                 (lstrip (CHR ''@'') field)) srt"
  by (auto simp: apply_sort_def apply_sort_loop_eq split: option.splits prod.splits)

lemma build_select_query_Inr:
  assumes "build_select_query classes filters pg srt rf = Inr q"
  shows "\<exists>fd ty ev.
           filters = PDict fd \<and> map_of fd ''type'' = Some ty
         \<and> contains ty (PStr ''cloudify_event'') = Inr True
         \<and> apply_range_filters classes (apply_filters select_events fd) Event rf = Inr ev
         \<and> limit q = Some (BindParam ''limit'') \<and> offset q = Some (BindParam ''offset'')
         \<and> order_by q =
              map (\<lambda>(field, ord). (if ord = PStr ''asc'' then asc else desc)
                     (lstrip (CHR ''@'') field)) srt
         \<and> ((contains ty (PStr ''cloudify_log'') = Inr False \<and> source q = Plain ev)
            \<or> (contains ty (PStr ''cloudify_log'') = Inr True
               \<and> (\<exists>lg. apply_range_filters classes (apply_filters select_logs fd) Log rf = Inr lg
                       \<and> source q = Union ev lg)))"
proof -
  from assms obtain fd where fd: "filters = PDict fd"
    by (cases filters) (simp_all add: build_select_query_def)
  from assms fd obtain ty where ty: "map_of fd ''type'' = Some ty"
    by (cases "map_of fd ''type''") (simp_all add: build_select_query_def)
  from assms fd ty have ev: "contains ty (PStr ''cloudify_event'') = Inr True"
    by (cases "contains ty (PStr ''cloudify_event'')")
       (auto simp: build_select_query_def and_then_def split: if_splits)
  from assms fd ty ev obtain e where e:
      "apply_range_filters classes (apply_filters select_events fd) Event rf = Inr e"
    by (cases "apply_range_filters classes (apply_filters select_events fd) Event rf")
       (auto simp: build_select_query_def and_then_def Let_def)
  from assms fd ty ev e obtain b where b: "contains ty (PStr ''cloudify_log'') = Inr b"
    by (cases "contains ty (PStr ''cloudify_log'')")
       (auto simp: build_select_query_def and_then_def Let_def)
  show ?thesis
  proof (cases b)
    case False
    with assms fd ty ev e b obtain q0 where
        "apply_sort (plain e) srt = Inr q0"
        "q = q0\<lparr>limit := Some (BindParam ''limit''), offset := Some (BindParam ''offset'')\<rparr>"
      by (cases "apply_sort (plain e) srt")
         (auto simp: build_select_query_def and_then_def Let_def)
    with fd ty ev e b False show ?thesis
      by (auto dest!: apply_sort_source simp: plain_def)
  next
    case True
    with assms fd ty ev e b obtain lg where lg:
        "apply_range_filters classes (apply_filters select_logs fd) Log rf = Inr lg"
      by (cases "apply_range_filters classes (apply_filters select_logs fd) Log rf")
         (auto simp: build_select_query_def and_then_def Let_def)
    with assms fd ty ev e b True obtain q0 where
        "apply_sort (union e lg) srt = Inr q0"
        "q = q0\<lparr>limit := Some (BindParam ''limit''), offset := Some (BindParam ''offset'')\<rparr>"
      by (cases "apply_sort (union e lg) srt")
         (auto simp: build_select_query_def and_then_def Let_def)
    with fd ty ev e b True lg show ?thesis
      by (auto dest!: apply_sort_source simp: union_def)
  qed
qed

lemma build_count_query_Inr:
  assumes "build_count_query classes filters rf = Inr c"
  shows "\<exists>fd ty ev.
           filters = PDict fd \<and> map_of fd ''type'' = Some ty
         \<and> contains ty (PStr ''cloudify_event'') = Inr True
         \<and> apply_range_filters classes (apply_filters count_events fd) Event rf = Inr ev
         \<and> ((contains ty (PStr ''cloudify_log'') = Inr False \<and> c = SubqueryColumn ev ''count'')
            \<or> (contains ty (PStr ''cloudify_log'') = Inr True
               \<and> (\<exists>lg. apply_range_filters classes (apply_filters count_logs fd) Log rf = Inr lg
                       \<and> c = Add (SubqueryColumn ev ''count'') (SubqueryColumn lg ''count''))))"
proof -
  from assms obtain fd where fd: "filters = PDict fd"
    by (cases filters) (simp_all add: build_count_query_def)
  from assms fd obtain ty where ty: "map_of fd ''type'' = Some ty"
    by (cases "map_of fd ''type''") (simp_all add: build_count_query_def)
  from assms fd ty have ev: "contains ty (PStr ''cloudify_event'') = Inr True"
    by (cases "contains ty (PStr ''cloudify_event'')")
       (auto simp: build_count_query_def and_then_def split: if_splits)
  from assms fd ty ev obtain e where e:
      "apply_range_filters classes (apply_filters count_events fd) Event rf = Inr e"
    by (cases "apply_range_filters classes (apply_filters count_events fd) Event rf")
       (auto simp: build_count_query_def and_then_def Let_def)
  from assms fd ty ev e obtain b where b: "contains ty (PStr ''cloudify_log'') = Inr b"
    by (cases "contains ty (PStr ''cloudify_log'')")
       (auto simp: build_count_query_def and_then_def Let_def)
  from assms fd ty ev e b show ?thesis
    by (cases "apply_range_filters classes (apply_filters count_logs fd) Log rf")
       (auto simp: build_count_query_def and_then_def Let_def split: if_splits)
qed

section \<open>Executing the plans\<close>

lemma apply_range_filters_Inr:
  "apply_range_filters classes q m rf = Inr q' \<Longrightarrow>
     columns q' = columns q \<and> set (criteria q) \<subseteq> set (criteria q')"
  by (auto simp: apply_range_filters_eq split: sum.splits)

lemma columns_apply_filters: "columns (apply_filters q fd) = columns q"
  by (simp add: apply_filters_eq)

lemma eval_column_in_table:
  assumes "env \<in> set (envs d ms)" and "eval env (Column m a) \<noteq> PNone"
  shows "\<exists>e \<in> set (table d m). eval env (Column m a) = column_value e a"
  using envs_lookup [OF assms(1), of m] assms(2) by auto

lemma no_match_when_not_owned:
  assumes own: "\<forall>e \<in> set (executions_table d). \<forall>p \<in> set (deployments_table d).
                  column_value e ''id'' \<in> set xs \<longrightarrow> column_value p ''id'' \<in> set ys \<longrightarrow>
                  column_value e ''_deployment_fk'' \<noteq> column_value p ''_storage_id''"
    and c1: "Eq (Column Execution ''_deployment_fk'') (Column Deployment ''_storage_id'')
               \<in> set (criteria s)"
    and c2: "In (Column Execution ''id'') (PList xs) \<in> set (criteria s)"
    and c3: "In (Column Deployment ''id'') (PList ys) \<in> set (criteria s)"
  shows "matches d s = []"
proof -
  have "\<not> list_all (holds d env) (criteria s)" if env: "env \<in> set (envs d (froms s))" for env
  proof
    assume all: "list_all (holds d env) (criteria s)"
    from all c1 have h1: "holds d env (Eq (Column Execution ''_deployment_fk'')
                            (Column Deployment ''_storage_id''))"
      unfolding list_all_iff by blast
    from all c2 have h2: "holds d env (In (Column Execution ''id'') (PList xs))"
      unfolding list_all_iff by blast
    from all c3 have h3: "holds d env (In (Column Deployment ''id'') (PList ys))"
      unfolding list_all_iff by blast
    from h2 envs_lookup [OF env, of Execution] obtain e where
        e: "e \<in> set (executions_table d)" "map_of env Execution = Some e"
      by auto
    from h3 envs_lookup [OF env, of Deployment] obtain p where
        p: "p \<in> set (deployments_table d)" "map_of env Deployment = Some p"
      by auto
    from h1 h2 h3 e p own show False by auto
  qed
  then show ?thesis by (simp add: matches_def filter_empty_conv)
qed

lemma aggregate_select_events [simp]: "\<not> aggregate select_events"
  by (simp add: aggregate_def select_events_def filter_query_def session_query_def label_def
      attribute_def)

lemma aggregate_select_logs [simp]: "\<not> aggregate select_logs"
  by (simp add: aggregate_def select_logs_def filter_query_def session_query_def label_def
      attribute_def)

lemma aggregate_columns: "columns s = columns t \<Longrightarrow> aggregate s = aggregate t"
  by (simp add: aggregate_def)

lemma rows_of_no_match:
  "matches d s = [] \<Longrightarrow> \<not> aggregate s \<Longrightarrow> rows_of d s = []"
  by (simp add: rows_of_def)

lemma set_window: "set (window lim off rows) \<subseteq> set rows"
  by (auto simp: window_def Let_def split: option.splits dest: in_set_takeD in_set_dropD)

lemma length_window: "length (window (Some n) off rows) \<le> n"
  by (simp add: window_def Let_def)

lemma run_all_Inr:
  "run_all d params q = Inr rows \<Longrightarrow>
     \<exists>lim off. bound_value params (limit q) = Inr lim
             \<and> bound_value params (offset q) = Inr off
             \<and> rows = window lim off (order_rows (order_by q) (source_rows d (source q)))"
  by (auto simp: run_all_def and_then_def split: sum.splits)

lemma run_all_subset:
  "run_all d params q = Inr rows \<Longrightarrow> set rows \<subseteq> set (source_rows d (source q))"
  using set_window set_order_rows by (fastforce dest!: run_all_Inr)

lemma criteria_select_count_events: "criteria count_events = criteria select_events"
  by (simp add: count_events_def select_events_def filter_query_def session_query_def)

lemma criteria_select_count_logs: "criteria count_logs = criteria select_logs"
  by (simp add: count_logs_def select_logs_def filter_query_def session_query_def)

lemma columns_count_events: "columns count_events = [(CountStar, ''count'')]"
  by (simp add: count_events_def filter_query_def session_query_def label_def)

lemma columns_count_logs: "columns count_logs = [(CountStar, ''count'')]"
  by (simp add: count_logs_def filter_query_def session_query_def label_def)

lemma eval_scalar_count:
  "columns s = [(CountStar, ''count'')] \<Longrightarrow>
     eval_scalar d (SubqueryColumn s ''count'') = Inr (int (length (matches d s)))"
  by (simp add: rows_of_def aggregate_def)

lemma built_criteria:
  assumes "apply_range_filters classes (apply_filters base fd) m rf = Inr s"
  shows "set (criteria base) \<subseteq> set (criteria s)"
    and "map_of fd ''execution_id'' = Some v \<Longrightarrow> In (Column Execution ''id'') v \<in> set (criteria s)"
    and "map_of fd ''deployment_id'' = Some w \<Longrightarrow> In (Column Deployment ''id'') w \<in> set (criteria s)"
  using apply_range_filters_Inr [OF assms] by (auto simp: apply_filters_eq)

lemma join_in_select_events:
  "Eq (Column Execution ''_deployment_fk'') (Column Deployment ''_storage_id'')
     \<in> set (criteria select_events)"
  by (simp add: select_events_def filter_query_def session_query_def)

lemma join_in_select_logs:
  "Eq (Column Execution ''_deployment_fk'') (Column Deployment ''_storage_id'')
     \<in> set (criteria select_logs)"
  by (simp add: select_logs_def filter_query_def session_query_def)

lemma built_no_match:
  assumes own: "\<forall>e \<in> set (executions_table d). \<forall>p \<in> set (deployments_table d).
                  column_value e ''id'' \<in> set xs \<longrightarrow> column_value p ''id'' \<in> set ys \<longrightarrow>
                  column_value e ''_deployment_fk'' \<noteq> column_value p ''_storage_id''"
    and x: "map_of fd ''execution_id'' = Some (PList xs)"
    and y: "map_of fd ''deployment_id'' = Some (PList ys)"
    and j: "Eq (Column Execution ''_deployment_fk'') (Column Deployment ''_storage_id'')
              \<in> set (criteria base)"
    and s: "apply_range_filters classes (apply_filters base fd) m rf = Inr s"
  shows "matches d s = []"
  using no_match_when_not_owned [OF own] built_criteria [OF s] x y j by blast

lemma run_all_succeeds:
  "limit q = Some (BindParam ''limit'') \<Longrightarrow> offset q = Some (BindParam ''offset'') \<Longrightarrow>
   map_of params ''limit'' = Some (PInt n) \<Longrightarrow> map_of params ''offset'' = Some (PInt k) \<Longrightarrow>
   0 \<le> n \<Longrightarrow> 0 \<le> k \<Longrightarrow>
   run_all d params q =
     Inr (window (Some (nat n)) (Some (nat k))
            (order_rows (order_by q) (source_rows d (source q))))"
  by (simp add: run_all_def bound_value_def and_then_def)

lemma example_not_owned:
  "\<forall>e \<in> set (executions_table example_store). \<forall>p \<in> set (deployments_table example_store).
     column_value e ''id'' \<in> set [PStr ''exec1''] \<longrightarrow>
     column_value p ''id'' \<in> set [PStr ''dep2''] \<longrightarrow>
     column_value e ''_deployment_fk'' \<noteq> column_value p ''_storage_id''"
  by (simp add: example_store_def column_value_def)

section \<open>Filters and ownership\<close>

text \<open>
  Claim C7. \<^verbatim>\<open>_apply_filters\<close> adds one \<^verbatim>\<open>IN\<close> criterion on \<^verbatim>\<open>Execution.id\<close> when the key
  \<^verbatim>\<open>execution_id\<close> is present and one on \<^verbatim>\<open>Deployment.id\<close> when \<^verbatim>\<open>deployment_id\<close> is present,
  after the criteria the query has; a combination of rows satisfies the result exactly when
  it satisfies the criteria of the query and both added ones. Every query that the builders
  return keeps the join of the event or log to its execution and of the execution to its
  deployment. So when no execution with one of the requested execution ids belongs to a
  deployment with one of the requested deployment ids, the selection query returns no row
  and the count query returns zero.
\<close>

theorem filters_conjunctive_with_ownership:
  assumes "map_of fd ''execution_id'' = Some (PList xs)"
    and "map_of fd ''deployment_id'' = Some (PList ys)"
    and "\<forall>e \<in> set (executions_table d). \<forall>p \<in> set (deployments_table d).
           column_value e ''id'' \<in> set xs \<longrightarrow> column_value p ''id'' \<in> set ys \<longrightarrow>
           column_value e ''_deployment_fk'' \<noteq> column_value p ''_storage_id''"
  shows "apply_filters query filters =
           query\<lparr>criteria := criteria query
             @ (case map_of filters ''execution_id'' of
                  Some v \<Rightarrow> [In (Column Execution ''id'') v] | None \<Rightarrow> [])
             @ (case map_of filters ''deployment_id'' of
                  Some v \<Rightarrow> [In (Column Deployment ''id'') v] | None \<Rightarrow> [])\<rparr>
       \<and> (list_all (holds d env) (criteria (apply_filters query fd)) \<longleftrightarrow>
            list_all (holds d env) (criteria query)
            \<and> holds d env (In (Column Execution ''id'') (PList xs))
            \<and> holds d env (In (Column Deployment ''id'') (PList ys)))
       \<and> (build_select_query classes (PDict fd) pagination sort' range_filters = Inr q \<longrightarrow>
            run_all d params q = Inr rows \<longrightarrow> rows = [])
       \<and> (build_count_query classes (PDict fd) range_filters = Inr c \<longrightarrow>
            run_scalar d params c = Inr 0)"
proof (intro conjI impI)
  show "apply_filters query filters =
           query\<lparr>criteria := criteria query
             @ (case map_of filters ''execution_id'' of
                  Some v \<Rightarrow> [In (Column Execution ''id'') v] | None \<Rightarrow> [])
             @ (case map_of filters ''deployment_id'' of
                  Some v \<Rightarrow> [In (Column Deployment ''id'') v] | None \<Rightarrow> [])\<rparr>"
    by (rule apply_filters_eq)
next
  show "list_all (holds d env) (criteria (apply_filters query fd)) \<longleftrightarrow>
            list_all (holds d env) (criteria query)
            \<and> holds d env (In (Column Execution ''id'') (PList xs))
            \<and> holds d env (In (Column Deployment ''id'') (PList ys))"
    using assms(1,2) by (simp add: apply_filters_eq del: holds.simps)
next
  assume b: "build_select_query classes (PDict fd) pagination sort' range_filters = Inr q"
    and r: "run_all d params q = Inr rows"
  from build_select_query_Inr [OF b] obtain ev where
      ev: "apply_range_filters classes (apply_filters select_events fd) Event range_filters = Inr ev"
      and src: "source q = Plain ev \<or>
                (\<exists>lg. apply_range_filters classes (apply_filters select_logs fd) Log range_filters = Inr lg
                      \<and> source q = Union ev lg)"
    by auto
  have ev0: "rows_of d ev = []"
    using built_no_match [OF assms(3,1,2) join_in_select_events ev]
      apply_range_filters_Inr [OF ev] aggregate_columns [of ev select_events]
    by (simp add: rows_of_no_match columns_apply_filters)
  from src have "source_rows d (source q) = []"
  proof
    assume "source q = Plain ev"
    with ev0 show ?thesis by (simp add: source_rows_def)
  next
    assume "\<exists>lg. apply_range_filters classes (apply_filters select_logs fd) Log range_filters = Inr lg
                      \<and> source q = Union ev lg"
    then obtain lg where
        lg: "apply_range_filters classes (apply_filters select_logs fd) Log range_filters = Inr lg"
        and u: "source q = Union ev lg"
      by blast
    have "rows_of d lg = []"
      using built_no_match [OF assms(3,1,2) join_in_select_logs lg]
        apply_range_filters_Inr [OF lg] aggregate_columns [of lg select_logs]
      by (simp add: rows_of_no_match columns_apply_filters)
    with ev0 u show ?thesis by (simp add: source_rows_def)
  qed
  with run_all_subset [OF r] show "rows = []" by simp
next
  assume b: "build_count_query classes (PDict fd) range_filters = Inr c"
  from build_count_query_Inr [OF b] obtain ev where
      ev: "apply_range_filters classes (apply_filters count_events fd) Event range_filters = Inr ev"
      and c: "c = SubqueryColumn ev ''count'' \<or>
              (\<exists>lg. apply_range_filters classes (apply_filters count_logs fd) Log range_filters = Inr lg
                    \<and> c = Add (SubqueryColumn ev ''count'') (SubqueryColumn lg ''count''))"
    by auto
  have jev: "Eq (Column Execution ''_deployment_fk'') (Column Deployment ''_storage_id'')
               \<in> set (criteria count_events)"
    by (simp add: criteria_select_count_events join_in_select_events)
  have jlg: "Eq (Column Execution ''_deployment_fk'') (Column Deployment ''_storage_id'')
               \<in> set (criteria count_logs)"
    by (simp add: criteria_select_count_logs join_in_select_logs)
  have "columns ev = [(CountStar, ''count'')]"
    using apply_range_filters_Inr [OF ev]
    by (simp add: columns_apply_filters columns_count_events)
  then have ev0: "eval_scalar d (SubqueryColumn ev ''count'') = Inr 0"
    using built_no_match [OF assms(3,1,2) jev ev]
    by (simp add: eval_scalar_count del: eval_scalar.simps)
  from c show "run_scalar d params c = Inr 0"
  proof
    assume "c = SubqueryColumn ev ''count''"
    with ev0 show ?thesis by (simp add: run_scalar_def)
  next
    assume "\<exists>lg. apply_range_filters classes (apply_filters count_logs fd) Log range_filters = Inr lg
                    \<and> c = Add (SubqueryColumn ev ''count'') (SubqueryColumn lg ''count'')"
    then obtain lg where
        lg: "apply_range_filters classes (apply_filters count_logs fd) Log range_filters = Inr lg"
        and c': "c = Add (SubqueryColumn ev ''count'') (SubqueryColumn lg ''count'')"
      by blast
    have "columns lg = [(CountStar, ''count'')]"
      using apply_range_filters_Inr [OF lg]
      by (simp add: columns_apply_filters columns_count_logs)
    then have "eval_scalar d (SubqueryColumn lg ''count'') = Inr 0"
      using built_no_match [OF assms(3,1,2) jlg lg]
      by (simp add: eval_scalar_count del: eval_scalar.simps)
    with ev0 c' show ?thesis by (simp add: run_scalar_def and_then_def)
  qed
qed

theorem filters_conjunctive_with_ownership_witness:
  "(\<exists>q. build_select_query example_classes
          (PDict [(''type'', PList [PStr ''cloudify_event'', PStr ''cloudify_log'']),
                  (''execution_id'', PList [PStr ''exec1'']),
                  (''deployment_id'', PList [PStr ''dep2''])])
          [(''size'', PInt 10), (''offset'', PInt 0)] [] [] = Inr q
        \<and> run_all example_store [(''limit'', PInt 10), (''offset'', PInt 0)] q = Inr [])
   \<and> (\<exists>c. build_count_query example_classes
          (PDict [(''type'', PList [PStr ''cloudify_event'', PStr ''cloudify_log'']),
                  (''execution_id'', PList [PStr ''exec1'']),
                  (''deployment_id'', PList [PStr ''dep2''])]) [] = Inr c
        \<and> run_scalar example_store [(''limit'', PInt 10), (''offset'', PInt 0)] c = Inr 0)"
proof -
  let ?fd = "[(''type'', PList [PStr ''cloudify_event'', PStr ''cloudify_log'']),
              (''execution_id'', PList [PStr ''exec1'']),
              (''deployment_id'', PList [PStr ''dep2''])]"
  let ?params = "[(''limit'', PInt 10), (''offset'', PInt 0)]"
  obtain q where q: "build_select_query example_classes (PDict ?fd) [(''size'', PInt 10), (''offset'', PInt 0)] [] []
                       = Inr q"
    by (simp add: build_select_query_def and_then_def apply_sort_def)
  obtain c where c: "build_count_query example_classes (PDict ?fd) [] = Inr c"
    by (simp add: build_count_query_def and_then_def)
  from build_select_query_Inr [OF q]
  have "limit q = Some (BindParam ''limit'')" "offset q = Some (BindParam ''offset'')"
    by auto
  then obtain rows where rows: "run_all example_store ?params q = Inr rows"
    by (simp add: run_all_succeeds [where n = 10 and k = 0])
  have x: "map_of ?fd ''execution_id'' = Some (PList [PStr ''exec1''])" by simp
  have y: "map_of ?fd ''deployment_id'' = Some (PList [PStr ''dep2''])" by simp
  note inst = filters_conjunctive_with_ownership [OF x y example_not_owned,
      where pagination = "[(''size'', PInt 10), (''offset'', PInt 0)]" and sort' = "[]"
        and range_filters = "[]" and q = q and params = ?params and rows = rows and c = c]
  from inst q rows have "rows = []" by blast
  moreover from inst c have "run_scalar example_store ?params c = Inr 0" by blast
  ultimately show ?thesis using q c rows by blast
qed

section \<open>Range filters\<close>







lemma parse_timestamp_examples:
  "parse_timestamp ''2024-01-02'' = Some (datetime 2024 1 2 0 0 0 0)"
  "parse_timestamp ''2024-01-02 03:04:05Z'' = Some (datetime 2024 1 2 3 4 5 0)"
  "parse_timestamp ''2024-01-02T03:04:05.5'' = Some (datetime 2024 1 2 3 4 5 500000)"
  "parse_timestamp ''yesterday'' = None"
  by (simp_all add: parse_timestamp_def parse_date_def parse_time_def number_def digit_value_def)




section \<open>The count and the rows\<close>

lemma filter_mem_cong:
  "A \<subseteq> C \<Longrightarrow> B \<subseteq> C \<Longrightarrow> filter (\<lambda>m. m \<in> A \<union> C) ms = filter (\<lambda>m. m \<in> B \<union> C) ms"
  by (intro filter_cong) auto

lemma froms_cong:
  assumes "criteria s = criteria t"
    and "set (concat (map (\<lambda>(e, name). expr_models e) (columns s)))
           \<subseteq> set (concat (map criterion_models (criteria s)))"
    and "set (concat (map (\<lambda>(e, name). expr_models e) (columns t)))
           \<subseteq> set (concat (map criterion_models (criteria t)))"
  shows "froms s = froms t"
  unfolding froms_def set_append assms(1) [symmetric]
  using assms(2) assms(3) [unfolded assms(1) [symmetric]] by (rule filter_mem_cong)

lemma built_Inr_eq:
  "apply_range_filters classes (apply_filters base fd) m rf = Inr s \<Longrightarrow>
     columns s = columns base
     \<and> (\<exists>extra. criteria s = criteria base @ extra
           \<and> (\<forall>base'. apply_range_filters classes (apply_filters base' fd) m rf =
                  Inr ((apply_filters base' fd)\<lparr>criteria := criteria base' @ extra\<rparr>)))"
  by (auto simp: apply_range_filters_eq apply_filters_eq split: option.splits sum.splits)

lemma select_events_models:
  "set (concat (map (\<lambda>(e, name). expr_models e) (columns select_events)))
     \<subseteq> set (concat (map criterion_models (criteria select_events)))"
  by (simp add: select_events_def filter_query_def session_query_def label_def attribute_def)

lemma select_logs_models:
  "set (concat (map (\<lambda>(e, name). expr_models e) (columns select_logs)))
     \<subseteq> set (concat (map criterion_models (criteria select_logs)))"
  by (simp add: select_logs_def filter_query_def session_query_def label_def attribute_def)

lemma matches_count_select:
  assumes s: "apply_range_filters classes (apply_filters base fd) m rf = Inr s"
    and c: "apply_range_filters classes (apply_filters cbase fd) m rf = Inr cs"
    and crit: "criteria cbase = criteria base"
    and cols: "columns cbase = [(CountStar, ''count'')]"
    and models: "set (concat (map (\<lambda>(e, name). expr_models e) (columns base)))
                   \<subseteq> set (concat (map criterion_models (criteria base)))"
  shows "matches d cs = matches d s"
proof -
  from built_Inr_eq [OF s] obtain extra where
      cs: "columns s = columns base" and es: "criteria s = criteria base @ extra"
      and all: "\<forall>base'. apply_range_filters classes (apply_filters base' fd) m rf =
                  Inr ((apply_filters base' fd)\<lparr>criteria := criteria base' @ extra\<rparr>)"
    by blast
  from all c have "cs = (apply_filters cbase fd)\<lparr>criteria := criteria cbase @ extra\<rparr>"
    by simp
  then have cc: "columns cs = columns cbase" and ec: "criteria cs = criteria cbase @ extra"
    by (simp_all add: apply_filters_eq)
  have "set (concat (map (\<lambda>(e, name). expr_models e) (columns s)))
          \<subseteq> set (concat (map criterion_models (criteria s)))"
    using models by (simp add: cs es le_supI1)
  moreover have "set (concat (map (\<lambda>(e, name). expr_models e) (columns cs)))
          \<subseteq> set (concat (map criterion_models (criteria cs)))"
    by (simp add: cc cols)
  moreover have "criteria cs = criteria s"
    by (simp add: ec es crit)
  ultimately have "froms cs = froms s"
    by (intro froms_cong)
  then show ?thesis by (simp add: matches_def ec es crit)
qed

lemma length_rows_of: "\<not> aggregate s \<Longrightarrow> length (rows_of d s) = length (matches d s)"
  by (simp add: rows_of_def)

lemma count_is_number_of_rows:
  assumes c: "build_count_query classes filters rf = Inr c"
    and q: "build_select_query classes filters pagination srt rf = Inr q"
  shows "eval_scalar d c =
           Inr (case source q of
                  Plain s \<Rightarrow> int (length (rows_of d s))
                | Union s t \<Rightarrow> int (length (rows_of d s)) + int (length (rows_of d t)))"
proof -
  from build_select_query_Inr [OF q] obtain fd ty ev where
      f: "filters = PDict fd" "map_of fd ''type'' = Some ty"
      and ev: "apply_range_filters classes (apply_filters select_events fd) Event rf = Inr ev"
      and src: "(contains ty (PStr ''cloudify_log'') = Inr False \<and> source q = Plain ev)
            \<or> (contains ty (PStr ''cloudify_log'') = Inr True
               \<and> (\<exists>lg. apply_range_filters classes (apply_filters select_logs fd) Log rf = Inr lg
                       \<and> source q = Union ev lg))"
    by blast
  from build_count_query_Inr [OF c] f obtain cev where
      cev: "apply_range_filters classes (apply_filters count_events fd) Event rf = Inr cev"
      and cs: "(contains ty (PStr ''cloudify_log'') = Inr False \<and> c = SubqueryColumn cev ''count'')
            \<or> (contains ty (PStr ''cloudify_log'') = Inr True
               \<and> (\<exists>lg. apply_range_filters classes (apply_filters count_logs fd) Log rf = Inr lg
                       \<and> c = Add (SubqueryColumn cev ''count'') (SubqueryColumn lg ''count'')))"
    by auto
  have cols_cev: "columns cev = [(CountStar, ''count'')]"
    using apply_range_filters_Inr [OF cev]
    by (simp add: columns_apply_filters columns_count_events)
  have agg_ev: "\<not> aggregate ev"
    using apply_range_filters_Inr [OF ev] aggregate_columns [of ev select_events]
    by (simp add: columns_apply_filters)
  have n_ev: "eval_scalar d (SubqueryColumn cev ''count'') = Inr (int (length (rows_of d ev)))"
    using matches_count_select [OF ev cev criteria_select_count_events columns_count_events
        select_events_models]
    by (simp add: eval_scalar_count [OF cols_cev] length_rows_of [OF agg_ev]
        del: eval_scalar.simps)
  from src show ?thesis
  proof
    assume a: "contains ty (PStr ''cloudify_log'') = Inr False \<and> source q = Plain ev"
    with cs have "c = SubqueryColumn cev ''count''" by auto
    with a n_ev show ?thesis by simp
  next
    assume a: "contains ty (PStr ''cloudify_log'') = Inr True
               \<and> (\<exists>lg. apply_range_filters classes (apply_filters select_logs fd) Log rf = Inr lg
                       \<and> source q = Union ev lg)"
    then obtain lg where
        lg: "apply_range_filters classes (apply_filters select_logs fd) Log rf = Inr lg"
        and u: "source q = Union ev lg"
      by blast
    from a cs obtain clg where
        clg: "apply_range_filters classes (apply_filters count_logs fd) Log rf = Inr clg"
        and c': "c = Add (SubqueryColumn cev ''count'') (SubqueryColumn clg ''count'')"
      by auto
    have cols_clg: "columns clg = [(CountStar, ''count'')]"
      using apply_range_filters_Inr [OF clg]
      by (simp add: columns_apply_filters columns_count_logs)
    have agg_lg: "\<not> aggregate lg"
      using apply_range_filters_Inr [OF lg] aggregate_columns [of lg select_logs]
      by (simp add: columns_apply_filters)
    have n_lg: "eval_scalar d (SubqueryColumn clg ''count'') = Inr (int (length (rows_of d lg)))"
      using matches_count_select [OF lg clg criteria_select_count_logs columns_count_logs
          select_logs_models]
      by (simp add: eval_scalar_count [OF cols_clg] length_rows_of [OF agg_lg]
          del: eval_scalar.simps)
    from c' n_ev n_lg u show ?thesis by (simp add: and_then_def)
  qed
qed

lemma run_all_length:
  assumes "run_all d [(''limit'', PInt sz), (''offset'', PInt off)] q = Inr rows"
    and "limit q = Some (BindParam ''limit'')"
  shows "int (length rows) \<le> sz"
proof -
  from run_all_Inr [OF assms(1)] obtain lim skip where
      b: "bound_value [(''limit'', PInt sz), (''offset'', PInt off)] (limit q) = Inr lim"
      and r: "rows = window lim skip (order_rows (order_by q) (source_rows d (source q)))"
    by blast
  from b assms(2) have "0 \<le> sz" and "lim = Some (nat sz)"
    by (auto simp: bound_value_def split: if_splits)
  with r have "length rows \<le> nat sz"
    by (simp add: length_window)
  with \<open>0 \<le> sz\<close> show ?thesis by linarith
qed

lemma example_event_rows:
  "rows_of example_store
     (apply_filters select_events example_filters) =
   [[(''timestamp'', PDatetime (datetime 2024 1 2 3 4 5 123456)),
     (''deployment_id'', PStr ''dep1''), (''message'', PStr ''started''),
     (''message_code'', PNone), (''event_type'', PStr ''workflow_started''),
     (''operation'', PNone), (''node_id'', PNone), (''logger'', PNone), (''level'', PNone),
     (''type'', PStr ''cloudify_event'')],
    [(''timestamp'', PDatetime (datetime 2024 1 2 3 4 5 123456)),
     (''deployment_id'', PStr ''dep1''), (''message'', PStr ''started''),
     (''message_code'', PNone), (''event_type'', PStr ''workflow_started''),
     (''operation'', PNone), (''node_id'', PNone), (''logger'', PNone), (''level'', PNone),
     (''type'', PStr ''cloudify_event'')]]"
  by (simp add: rows_of_def aggregate_def matches_def froms_def apply_filters_eq
      select_events_def filter_query_def session_query_def label_def attribute_def
      example_store_def example_filters_def example_event_def column_value_def literal_value_def quoted_def)

lemma example_log_rows:
  "rows_of example_store
     (apply_filters select_logs example_filters) =
   [[(''timestamp'', PDatetime (datetime 2024 1 2 3 4 5 500000)),
     (''deployment_id'', PStr ''dep1''), (''message'', PStr ''creating''),
     (''message_code'', PNone), (''event_type'', PNone),
     (''operation'', PStr ''create''), (''node_id'', PStr ''vm''), (''logger'', PStr ''ctx''),
     (''level'', PStr ''info''), (''type'', PStr ''cloudify_log'')]]"
  by (simp add: rows_of_def aggregate_def matches_def froms_def apply_filters_eq
      select_logs_def filter_query_def session_query_def label_def attribute_def
      example_store_def example_filters_def example_log_def column_value_def literal_value_def quoted_def)

lemma example_select_query:
  "build_select_query example_classes (PDict example_filters) pagination [] [] =
     Inr ((union (apply_filters select_events example_filters)
                 (apply_filters select_logs example_filters))
            \<lparr>limit := Some (BindParam ''limit''), offset := Some (BindParam ''offset'')\<rparr>)"
  by (simp add: build_select_query_def and_then_def apply_sort_def example_filters_def)

lemma example_count_query:
  "build_count_query example_classes (PDict example_filters) [] =
     Inr (Add (SubqueryColumn (apply_filters count_events example_filters) ''count'')
              (SubqueryColumn (apply_filters count_logs example_filters) ''count''))"
  by (simp add: build_count_query_def and_then_def example_filters_def)

lemma example_source_rows:
  "source_rows example_store
     (Union (apply_filters select_events example_filters)
            (apply_filters select_logs example_filters)) =
   [[(''timestamp'', PDatetime (datetime 2024 1 2 3 4 5 123456)),
     (''deployment_id'', PStr ''dep1''), (''message'', PStr ''started''),
     (''message_code'', PNone), (''event_type'', PStr ''workflow_started''),
     (''operation'', PNone), (''node_id'', PNone), (''logger'', PNone), (''level'', PNone),
     (''type'', PStr ''cloudify_event'')],
    [(''timestamp'', PDatetime (datetime 2024 1 2 3 4 5 500000)),
     (''deployment_id'', PStr ''dep1''), (''message'', PStr ''creating''),
     (''message_code'', PNone), (''event_type'', PNone),
     (''operation'', PStr ''create''), (''node_id'', PStr ''vm''), (''logger'', PStr ''ctx''),
     (''level'', PStr ''info''), (''type'', PStr ''cloudify_log'')]]"
  by (simp add: source_rows_def example_event_rows example_log_rows)

lemma example_run_all:
  "run_all example_store [(''limit'', PInt 100), (''offset'', PInt 0)]
     ((union (apply_filters select_events example_filters)
             (apply_filters select_logs example_filters))
        \<lparr>limit := Some (BindParam ''limit''), offset := Some (BindParam ''offset'')\<rparr>) =
   Inr [[(''timestamp'', PDatetime (datetime 2024 1 2 3 4 5 123456)),
     (''deployment_id'', PStr ''dep1''), (''message'', PStr ''started''),
     (''message_code'', PNone), (''event_type'', PStr ''workflow_started''),
     (''operation'', PNone), (''node_id'', PNone), (''logger'', PNone), (''level'', PNone),
     (''type'', PStr ''cloudify_event'')],
    [(''timestamp'', PDatetime (datetime 2024 1 2 3 4 5 500000)),
     (''deployment_id'', PStr ''dep1''), (''message'', PStr ''creating''),
     (''message_code'', PNone), (''event_type'', PNone),
     (''operation'', PStr ''create''), (''node_id'', PStr ''vm''), (''logger'', PStr ''ctx''),
     (''level'', PStr ''info''), (''type'', PStr ''cloudify_log'')]]"
  by (simp add: run_all_def bound_value_def and_then_def union_def example_source_rows
      order_rows_def window_def)

section \<open>Pagination\<close>

text \<open>
  Claim C8. The count query has no window: whatever values are bound to \<^verbatim>\<open>limit\<close> and
  \<^verbatim>\<open>offset\<close>, it returns the number of matching rows of the selection, the events and the
  logs counted apart when both are requested; so the count is the same for all values of
  \<^verbatim>\<open>size\<close> and \<^verbatim>\<open>offset\<close>. The selection query has the bound parameters \<^verbatim>\<open>limit\<close> and
  \<^verbatim>\<open>offset\<close> as its window, and run with \<^verbatim>\<open>limit\<close> bound to \<open>sz\<close> it returns at most \<open>sz\<close>
  rows.
\<close>

theorem count_ignores_pagination:
  assumes "build_count_query classes filters range_filters = Inr c"
    and "build_select_query classes filters pagination sort' range_filters = Inr q"
  shows "run_scalar d params c =
           Inr (case source q of
                  Plain s \<Rightarrow> int (length (rows_of d s))
                | Union s t \<Rightarrow> int (length (rows_of d s)) + int (length (rows_of d t)))
       \<and> run_scalar d [(''limit'', PInt sz), (''offset'', PInt off)] c =
           run_scalar d [(''limit'', PInt sz'), (''offset'', PInt off')] c
       \<and> limit q = Some (BindParam ''limit'') \<and> offset q = Some (BindParam ''offset'')
       \<and> (run_all d [(''limit'', PInt sz), (''offset'', PInt off)] q = Inr rows \<longrightarrow>
            int (length rows) \<le> sz)"
  using count_is_number_of_rows [OF assms] build_select_query_Inr [OF assms(2)]
    run_all_length [of d sz off q rows]
  by (auto simp: run_scalar_def simp del: eval_scalar.simps)

theorem count_ignores_pagination_witness:
  "\<exists>c q. build_count_query example_classes (PDict example_filters) [] = Inr c
     \<and> build_select_query example_classes (PDict example_filters) [(''size'', PInt 1), (''offset'', PInt 0)] [] []
         = Inr q
     \<and> run_scalar example_store [(''limit'', PInt 1), (''offset'', PInt 0)] c = Inr 3
     \<and> run_scalar example_store [(''limit'', PInt 50), (''offset'', PInt 2)] c = Inr 3
     \<and> (\<exists>rows. run_all example_store [(''limit'', PInt 1), (''offset'', PInt 0)] q = Inr rows
            \<and> int (length rows) \<le> 1)"
proof -
  let ?pg = "[(''size'', PInt 1), (''offset'', PInt 0)]"
  let ?q = "(union (apply_filters select_events example_filters)
                   (apply_filters select_logs example_filters))
              \<lparr>limit := Some (BindParam ''limit''), offset := Some (BindParam ''offset'')\<rparr>"
  let ?c = "Add (SubqueryColumn (apply_filters count_events example_filters) ''count'')
                (SubqueryColumn (apply_filters count_logs example_filters) ''count'')"
  have q: "build_select_query example_classes (PDict example_filters) ?pg [] [] = Inr ?q"
    by (rule example_select_query)
  have c: "build_count_query example_classes (PDict example_filters) [] = Inr ?c"
    by (rule example_count_query)
  have src: "source ?q = Union (apply_filters select_events example_filters)
                               (apply_filters select_logs example_filters)"
    by (simp add: union_def)
  obtain rows where rows:
      "run_all example_store [(''limit'', PInt 1), (''offset'', PInt 0)] ?q = Inr rows"
    by (simp add: run_all_succeeds [where n = 1 and k = 0])
  note inst = count_ignores_pagination [OF c q, where d = example_store and rows = rows
      and sz = 1 and off = 0]
  from inst [where params = "[(''limit'', PInt 1), (''offset'', PInt 0)]"]
  have n1: "run_scalar example_store [(''limit'', PInt 1), (''offset'', PInt 0)] ?c = Inr 3"
    by (simp add: src example_event_rows example_log_rows)
  from inst [where params = "[(''limit'', PInt 50), (''offset'', PInt 2)]"]
  have n2: "run_scalar example_store [(''limit'', PInt 50), (''offset'', PInt 2)] ?c = Inr 3"
    by (simp add: src example_event_rows example_log_rows)
  from inst rows have "int (length rows) \<le> 1" by blast
  with q c n1 n2 rows show ?thesis by blast
qed

section \<open>Events and logs together\<close>

text \<open>
  Claim C1. When the type list holds both \<^verbatim>\<open>cloudify_event\<close> and \<^verbatim>\<open>cloudify_log\<close>, the
  selection query is the union of the filtered event projection and the filtered log
  projection, and the count query is the sum of the two filtered counts (the lemmas
  \<open>build_select_query_Inr\<close>, \<open>build_count_query_Inr\<close> and \<open>count_is_number_of_rows\<close>). The
  claim concludes that without pagination the count is the number of selected rows. That
  fails on the example store: the two events of the first execution agree on every
  projected column, \<^verbatim>\<open>Query.union\<close> is the \<^verbatim>\<open>UNION\<close> of SQL and keeps one of them, so the
  selection returns two rows, one event and one log, while the count is three.
\<close>

theorem union_drops_equal_rows:
  "\<exists>c q rows.
       build_count_query example_classes (PDict example_filters) [] = Inr c
     \<and> build_select_query example_classes (PDict example_filters) [(''size'', PInt 100), (''offset'', PInt 0)] [] []
         = Inr q
     \<and> run_scalar example_store [(''limit'', PInt 100), (''offset'', PInt 0)] c = Inr 3
     \<and> run_all example_store [(''limit'', PInt 100), (''offset'', PInt 0)] q = Inr rows
     \<and> length rows = 2"
proof -
  have "run_scalar example_store [(''limit'', PInt 100), (''offset'', PInt 0)]
          (Add (SubqueryColumn (apply_filters count_events example_filters) ''count'')
               (SubqueryColumn (apply_filters count_logs example_filters) ''count'')) = Inr 3"
    using count_is_number_of_rows [OF example_count_query example_select_query,
        of example_store]
    by (simp add: run_scalar_def union_def example_event_rows example_log_rows
        del: eval_scalar.simps)
  then show ?thesis
    by (simp add: example_select_query example_count_query example_run_all)
qed

section \<open>Validation of the type filter\<close>

text \<open>
  Claim C2. When \<^verbatim>\<open>filters\<close> is not a dictionary, or has no \<^verbatim>\<open>type\<close> key, or its \<^verbatim>\<open>type\<close> list
  does not contain \<^verbatim>\<open>cloudify_event\<close>, both builders raise \<^verbatim>\<open>BadParametersError\<close>, with the same
  message. The builders only construct a plan; in the listing of events, which builds the
  count query first, the error is raised before any statement is sent to the store.
\<close>

theorem type_filter_rejected_before_execution:
  assumes "(\<forall>fd. filters \<noteq> PDict fd)
         \<or> (\<exists>fd. filters = PDict fd
               \<and> (map_of fd ''type'' = None
                  \<or> (\<exists>ts. map_of fd ''type'' = Some (PList ts)
                          \<and> PStr ''cloudify_event'' \<notin> set ts)))"
    and "map_of pagination ''size'' = Some sz"
    and "map_of pagination ''offset'' = Some off"
  shows "\<exists>msg.
           build_select_query classes filters pagination sort' range_filters =
             Inl (BadParametersError msg)
         \<and> build_count_query classes filters range_filters = Inl (BadParametersError msg)
         \<and> query_events classes d filters pagination sort' range_filters =
             (Inl (BadParametersError msg), 0)"
  using assms
  by (cases filters)
     (auto simp: build_select_query_def build_count_query_def query_events_def and_then_def
        getitem_def)

theorem type_filter_rejected_before_execution_witness:
  "build_select_query example_classes (PDict [(''type'', PList [PStr ''cloudify_log''])])
       [(''size'', PInt 10), (''offset'', PInt 0)] [] [] =
     Inl (BadParametersError ''At least `type=cloudify_event` filter is expected'')
   \<and> build_count_query example_classes (PDict [(''type'', PList [PStr ''cloudify_log''])]) [] =
     Inl (BadParametersError ''At least `type=cloudify_event` filter is expected'')
   \<and> query_events example_classes example_store (PDict [(''type'', PList [PStr ''cloudify_log''])])
       [(''size'', PInt 10), (''offset'', PInt 0)] [] [] =
     (Inl (BadParametersError ''At least `type=cloudify_event` filter is expected''), 0)
   \<and> query_events example_classes example_store (PDict [(''execution_id'', PList [PStr ''exec1''])])
       [(''size'', PInt 10), (''offset'', PInt 0)] [] [] =
     (Inl (BadParametersError ''Filter by type is expected''), 0)
   \<and> query_events example_classes example_store PNone
       [(''size'', PInt 10), (''offset'', PInt 0)] [] [] =
     (Inl (BadParametersError ''Filter by type is expected''), 0)"
proof -
  let ?pg = "[(''size'', PInt 10), (''offset'', PInt 0)]"
  have s: "map_of ?pg ''size'' = Some (PInt 10)" and o: "map_of ?pg ''offset'' = Some (PInt 0)"
    by simp_all
  have a: "(\<forall>fd. PDict [(''type'', PList [PStr ''cloudify_log''])] \<noteq> PDict fd)
         \<or> (\<exists>fd. PDict [(''type'', PList [PStr ''cloudify_log''])] = PDict fd
               \<and> (map_of fd ''type'' = None
                  \<or> (\<exists>ts. map_of fd ''type'' = Some (PList ts)
                          \<and> PStr ''cloudify_event'' \<notin> set ts)))"
    by simp
  have b: "(\<forall>fd. PDict [(''execution_id'', PList [PStr ''exec1''])] \<noteq> PDict fd)
         \<or> (\<exists>fd. PDict [(''execution_id'', PList [PStr ''exec1''])] = PDict fd
               \<and> (map_of fd ''type'' = None
                  \<or> (\<exists>ts. map_of fd ''type'' = Some (PList ts)
                          \<and> PStr ''cloudify_event'' \<notin> set ts)))"
    by simp
  have c: "(\<forall>fd. PNone \<noteq> PDict fd)
         \<or> (\<exists>fd. PNone = PDict fd
               \<and> (map_of fd ''type'' = None
                  \<or> (\<exists>ts. map_of fd ''type'' = Some (PList ts)
                          \<and> PStr ''cloudify_event'' \<notin> set ts)))"
    by simp
  from type_filter_rejected_before_execution [OF a s o, where classes = example_classes
           and sort' = "[]" and range_filters = "[]" and d = example_store]
       type_filter_rejected_before_execution [OF b s o, where classes = example_classes
           and sort' = "[]" and range_filters = "[]" and d = example_store]
       type_filter_rejected_before_execution [OF c s o, where classes = example_classes
           and sort' = "[]" and range_filters = "[]" and d = example_store]
  show ?thesis
    by (simp add: build_select_query_def build_count_query_def and_then_def)
qed

section \<open>Rendered timestamps\<close>

lemma zero_padded_Suc:
  "0 < w \<Longrightarrow> zero_padded (Suc w) n = zero_padded w (n div 10) @ [digit n]"
proof (cases "n < 10")
  case True
  assume "0 < w"
  then obtain v where w: "w = Suc v" by (cases w) auto
  from True show ?thesis
    by (simp add: zero_padded_def decimal.simps [of n] decimal.simps [of 0] digit_def w
        replicate_append_same)
next
  case False
  assume "0 < w"
  from False show ?thesis
    by (simp add: zero_padded_def decimal.simps [of n])
qed

lemma zero_padded_6:
  "zero_padded 6 n =
     zero_padded 3 (n div 1000) @ [digit (n div 100), digit (n div 10), digit n]"
proof -
  have a: "n div 10 div 10 = n div 100" and b: "n div 100 div 10 = n div 1000"
    by (simp_all add: div_mult2_eq [symmetric])
  have "zero_padded 6 n = zero_padded 5 (n div 10) @ [digit n]"
    using zero_padded_Suc [of 5 n] by simp
  moreover have "zero_padded 5 (n div 10) = zero_padded 4 (n div 100) @ [digit (n div 10)]"
    using zero_padded_Suc [of 4 "n div 10"] by (simp add: a)
  moreover have "zero_padded 4 (n div 100) = zero_padded 3 (n div 1000) @ [digit (n div 100)]"
    using zero_padded_Suc [of 3 "n div 100"] by (simp add: b)
  ultimately show ?thesis by simp
qed

lemma take_all_but_three:
  "take (length (xs @ [a, b, c]) - 3) (xs @ [a, b, c]) = xs"
  by simp

lemma zero_padded_2:
  "n < 100 \<Longrightarrow> zero_padded 2 n = [digit (n div 10), digit n]"
proof -
  assume "n < 100"
  then have "n div 10 < 10" by simp
  then have "zero_padded 1 (n div 10) = [digit (n div 10)]"
    by (simp add: zero_padded_def decimal.simps [of "n div 10"])
  moreover have "zero_padded 2 n = zero_padded (Suc 1) n" by (simp add: eval_nat_numeral)
  ultimately show ?thesis by (simp add: zero_padded_Suc)
qed

lemma format_timestamp_fraction:
  assumes "microsecond d \<noteq> 0"
  shows "format_timestamp d =
     zero_padded 4 (year d) @ ''-'' @ zero_padded 2 (month d) @ ''-'' @ zero_padded 2 (day d)
     @ ''T'' @ zero_padded 2 (hour d) @ '':'' @ zero_padded 2 (minute d) @ '':''
     @ zero_padded 2 (second d) @ ''.'' @ zero_padded 3 (microsecond d div 1000) @ ''Z''"
proof -
  define p where "p =
     zero_padded 4 (year d) @ ''-'' @ zero_padded 2 (month d) @ ''-'' @ zero_padded 2 (day d)
     @ ''T'' @ zero_padded 2 (hour d) @ '':'' @ zero_padded 2 (minute d) @ '':''
     @ zero_padded 2 (second d) @ ''.'' @ zero_padded 3 (microsecond d div 1000)"
  from assms have "isoformat d =
      p @ [digit (microsecond d div 100), digit (microsecond d div 10), digit (microsecond d)]"
    by (simp add: isoformat_def zero_padded_6 p_def)
  then have "format_timestamp d = p @ ''Z''"
    by (simp only: format_timestamp_def take_all_but_three)
  then show ?thesis by (simp add: p_def)
qed

lemma format_timestamp_whole_second:
  assumes "microsecond d = 0" and "second d < 100"
  shows "format_timestamp d =
     zero_padded 4 (year d) @ ''-'' @ zero_padded 2 (month d) @ ''-'' @ zero_padded 2 (day d)
     @ ''T'' @ zero_padded 2 (hour d) @ '':'' @ zero_padded 2 (minute d) @ ''Z''"
proof -
  define p where "p =
     zero_padded 4 (year d) @ ''-'' @ zero_padded 2 (month d) @ ''-'' @ zero_padded 2 (day d)
     @ ''T'' @ zero_padded 2 (hour d) @ '':'' @ zero_padded 2 (minute d)"
  from assms have "isoformat d = p @ [CHR '':'', digit (second d div 10), digit (second d)]"
    by (simp add: isoformat_def zero_padded_2 p_def)
  then have "format_timestamp d = p @ ''Z''"
    by (simp only: format_timestamp_def take_all_but_three)
  then show ?thesis by (simp add: p_def)
qed

lemma format_timestamp_example:
  "format_timestamp (datetime 2024 1 2 3 4 5 123456) = ''2024-01-02T03:04:05.123Z''"
  by (simp add: format_timestamp_def isoformat_def zero_padded_def decimal.simps digit_def)

lemma format_timestamp_full_second:
  "format_timestamp (datetime 2024 1 2 3 4 6 0) = ''2024-01-02T03:04Z''"
  by (simp add: format_timestamp_def isoformat_def zero_padded_def decimal.simps digit_def)

section \<open>The shape of a mapped row\<close>

lemma map_event_to_es_projection:
  "map_event_to_es include sql_event =
     (case map_event_to_es None sql_event of
        Inl e \<Rightarrow> Inl e
      | Inr event \<Rightarrow> Inr (filter (\<lambda>(key, v). included include key) event))"
  by (cases "include")
     (auto simp: map_event_to_es_def and_then_def Let_def included_def split: sum.splits)

lemma map_of_filter_key:
  "map_of (filter (\<lambda>(key, v). P key) al) k = (if P k then map_of al k else None)"
  by (induction al) auto

lemma map_event_to_es_event:
  "map_event_to_es None
     [(''timestamp'', ts), (''deployment_id'', dep), (''message'', m), (''message_code'', mc),
      (''event_type'', et), (''operation'', opn), (''node_id'', nid), (''logger'', lgr),
      (''level'', lvl), (''type'', PStr ''cloudify_event'')] =
   Inr [(''timestamp'', render ts),
        (''message'', PDict [(''text'', m), (''arguments'', PNone)]),
        (''message_code'', render mc), (''event_type'', render et),
        (''type'', PStr ''cloudify_event''), (''@timestamp'', render ts),
        (''context'', PDict [(''deployment_id'', dep), (''operation'', opn), (''node_id'', nid)])]"
  by (simp add: map_event_to_es_def and_then_def getitem_def setitem_def delitem_def
      context_fields_def)

lemma map_event_to_es_log:
  "map_event_to_es None
     [(''timestamp'', ts), (''deployment_id'', dep), (''message'', m), (''message_code'', mc),
      (''event_type'', et), (''operation'', opn), (''node_id'', nid), (''logger'', lgr),
      (''level'', lvl), (''type'', PStr ''cloudify_log'')] =
   Inr [(''timestamp'', render ts),
        (''message'', PDict [(''text'', m)]),
        (''message_code'', render mc), (''logger'', render lgr), (''level'', render lvl),
        (''type'', PStr ''cloudify_log''), (''@timestamp'', render ts),
        (''context'', PDict [(''deployment_id'', dep), (''operation'', opn), (''node_id'', nid)])]"
  by (simp add: map_event_to_es_def and_then_def getitem_def setitem_def delitem_def
      context_fields_def)

lemma map_event_to_es_other:
  "ty \<noteq> PStr ''cloudify_event'' \<Longrightarrow> ty \<noteq> PStr ''cloudify_log'' \<Longrightarrow>
   map_event_to_es None
     [(''timestamp'', ts), (''deployment_id'', dep), (''message'', m), (''message_code'', mc),
      (''event_type'', et), (''operation'', opn), (''node_id'', nid), (''logger'', lgr),
      (''level'', lvl), (''type'', ty)] =
   Inr [(''timestamp'', render ts),
        (''message'', PDict [(''text'', m)]),
        (''message_code'', render mc), (''event_type'', render et),
        (''logger'', render lgr), (''level'', render lvl),
        (''type'', render ty), (''@timestamp'', render ts),
        (''context'', PDict [(''deployment_id'', dep), (''operation'', opn), (''node_id'', nid)])]"
  by (simp add: map_event_to_es_def and_then_def getitem_def setitem_def delitem_def
      context_fields_def)

lemma unified_row_cases:
  assumes "map fst sql_event =
     [''timestamp'', ''deployment_id'', ''message'', ''message_code'', ''event_type'',
      ''operation'', ''node_id'', ''logger'', ''level'', ''type'']"
  obtains ts dep m mc et opn nid lgr lvl ty where
    "sql_event =
       [(''timestamp'', ts), (''deployment_id'', dep), (''message'', m), (''message_code'', mc),
        (''event_type'', et), (''operation'', opn), (''node_id'', nid), (''logger'', lgr),
        (''level'', lvl), (''type'', ty)]"
  using assms by (auto simp: map_eq_Cons_conv)

lemma unified_row_values:
  assumes "sql_event =
       [(''timestamp'', ts), (''deployment_id'', dep), (''message'', m), (''message_code'', mc),
        (''event_type'', et), (''operation'', opn), (''node_id'', nid), (''logger'', lgr),
        (''level'', lvl), (''type'', ty)]"
  shows "column_value sql_event ''timestamp'' = ts"
    and "column_value sql_event ''deployment_id'' = dep"
    and "column_value sql_event ''message'' = m"
    and "column_value sql_event ''operation'' = opn"
    and "column_value sql_event ''node_id'' = nid"
    and "column_value sql_event ''logger'' = lgr"
    and "column_value sql_event ''level'' = lvl"
    and "column_value sql_event ''type'' = ty"
    and "column_value sql_event ''event_type'' = et"
    and "column_value sql_event ''message_code'' = mc"
  by (simp_all add: assms column_value_def)

lemma unified_row_mapped:
  assumes "map fst sql_event =
     [''timestamp'', ''deployment_id'', ''message'', ''message_code'', ''event_type'',
      ''operation'', ''node_id'', ''logger'', ''level'', ''type'']"
  shows "map_event_to_es include sql_event =
     Inr (filter (\<lambda>(key, v). included include key)
       ([(''timestamp'', render (column_value sql_event ''timestamp'')),
         (''message'',
            PDict ((''text'', column_value sql_event ''message'')
                   # (if column_value sql_event ''type'' = PStr ''cloudify_event''
                      then [(''arguments'', PNone)] else []))),
         (''message_code'', render (column_value sql_event ''message_code''))]
        @ (if column_value sql_event ''type'' = PStr ''cloudify_log'' then []
           else [(''event_type'', render (column_value sql_event ''event_type''))])
        @ (if column_value sql_event ''type'' = PStr ''cloudify_event'' then []
           else [(''logger'', render (column_value sql_event ''logger'')),
                 (''level'', render (column_value sql_event ''level''))])
        @ [(''type'', render (column_value sql_event ''type'')),
           (''@timestamp'', render (column_value sql_event ''timestamp'')),
           (''context'',
              PDict [(''deployment_id'', column_value sql_event ''deployment_id''),
                     (''operation'', column_value sql_event ''operation''),
                     (''node_id'', column_value sql_event ''node_id'')])]))"
proof -
  from assms obtain ts dep m mc et opn nid lgr lvl ty where
    row: "sql_event =
       [(''timestamp'', ts), (''deployment_id'', dep), (''message'', m), (''message_code'', mc),
        (''event_type'', et), (''operation'', opn), (''node_id'', nid), (''logger'', lgr),
        (''level'', lvl), (''type'', ty)]"
    by (rule unified_row_cases)
  note cv = unified_row_values [OF row]
  consider "ty = PStr ''cloudify_event''" | "ty = PStr ''cloudify_log''"
    | "ty \<noteq> PStr ''cloudify_event''" "ty \<noteq> PStr ''cloudify_log''"
    by blast
  then have "map_event_to_es None sql_event =
     Inr ([(''timestamp'', render ts),
         (''message'',
            PDict ((''text'', m)
                   # (if ty = PStr ''cloudify_event'' then [(''arguments'', PNone)] else []))),
         (''message_code'', render mc)]
        @ (if ty = PStr ''cloudify_log'' then [] else [(''event_type'', render et)])
        @ (if ty = PStr ''cloudify_event'' then []
           else [(''logger'', render lgr), (''level'', render lvl)])
        @ [(''type'', render ty), (''@timestamp'', render ts),
           (''context'', PDict [(''deployment_id'', dep), (''operation'', opn),
                               (''node_id'', nid)])])"
  proof cases
    case 1
    show ?thesis unfolding row 1 map_event_to_es_event by simp
  next
    case 2
    show ?thesis unfolding row 2 map_event_to_es_log by simp
  next
    case 3
    show ?thesis unfolding row map_event_to_es_other [OF 3] using 3 by simp
  qed
  then show ?thesis
    unfolding cv by (subst map_event_to_es_projection) (simp only: sum.case)
qed

lemma keys_of_filter:
  "set (map fst (filter (\<lambda>(key, v). key \<in> A) al)) = set (map fst al) \<inter> A"
  by (induction al) auto

lemma unified_row_keys:
  assumes "map fst sql_event =
     [''timestamp'', ''deployment_id'', ''message'', ''message_code'', ''event_type'',
      ''operation'', ''node_id'', ''logger'', ''level'', ''type'']"
    and "map_event_to_es None sql_event = Inr event"
  shows "set (map fst event) =
     {''timestamp'', ''@timestamp'', ''message'', ''message_code'', ''type'', ''context''}
     \<union> (if column_value sql_event ''type'' = PStr ''cloudify_log'' then {}
         else {''event_type''})
     \<union> (if column_value sql_event ''type'' = PStr ''cloudify_event'' then {}
         else {''logger'', ''level''})"
  using assms(2) unfolding unified_row_mapped [OF assms(1), of None]
  by (auto simp: included_def)

text \<open>
  Claim C4. A unified row has the ten columns of the selection query. For every such row
  the mapper returns a record, and in that record, for the keys that the projection
  retains (all of them when \<^verbatim>\<open>_include\<close> is \<^verbatim>\<open>None\<close>): \<^verbatim>\<open>@timestamp\<close> and \<^verbatim>\<open>timestamp\<close> hold
  the same rendered timestamp of the row; \<^verbatim>\<open>message\<close> is \<^verbatim>\<open>{'text': <message of the row>}\<close>, with
  a further key \<^verbatim>\<open>arguments\<close> of value \<^verbatim>\<open>None\<close> exactly when the row is tagged
  \<^verbatim>\<open>cloudify_event\<close>; \<^verbatim>\<open>context\<close> holds \<^verbatim>\<open>deployment_id\<close>, \<^verbatim>\<open>operation\<close> and \<^verbatim>\<open>node_id\<close> of the
  row under their own names, and these three keys are no longer at the top level; a row
  tagged \<^verbatim>\<open>cloudify_event\<close> has no \<^verbatim>\<open>logger\<close> and no \<^verbatim>\<open>level\<close> key and keeps \<^verbatim>\<open>event_type\<close>;
  a row tagged \<^verbatim>\<open>cloudify_log\<close> has no \<^verbatim>\<open>event_type\<close> key and keeps \<^verbatim>\<open>logger\<close> and \<^verbatim>\<open>level\<close>.
\<close>

theorem map_event_to_es_shape:
  assumes "map fst sql_event =
     [''timestamp'', ''deployment_id'', ''message'', ''message_code'', ''event_type'',
      ''operation'', ''node_id'', ''logger'', ''level'', ''type'']"
  shows "\<exists>event. map_event_to_es include sql_event = Inr event
    \<and> (included include ''@timestamp'' \<longrightarrow>
         map_of event ''@timestamp'' = Some (render (column_value sql_event ''timestamp'')))
    \<and> (included include ''timestamp'' \<longrightarrow>
         map_of event ''timestamp'' = Some (render (column_value sql_event ''timestamp'')))
    \<and> (included include ''message'' \<longrightarrow>
         map_of event ''message'' =
           Some (PDict ((''text'', column_value sql_event ''message'')
                        # (if column_value sql_event ''type'' = PStr ''cloudify_event''
                           then [(''arguments'', PNone)] else []))))
    \<and> (included include ''context'' \<longrightarrow>
         map_of event ''context'' =
           Some (PDict [(''deployment_id'', column_value sql_event ''deployment_id''),
                        (''operation'', column_value sql_event ''operation''),
                        (''node_id'', column_value sql_event ''node_id'')]))
    \<and> map_of event ''deployment_id'' = None
    \<and> map_of event ''operation'' = None
    \<and> map_of event ''node_id'' = None
    \<and> (column_value sql_event ''type'' = PStr ''cloudify_event'' \<longrightarrow>
         map_of event ''logger'' = None \<and> map_of event ''level'' = None
         \<and> (included include ''event_type'' \<longrightarrow>
              map_of event ''event_type'' =
                Some (render (column_value sql_event ''event_type''))))
    \<and> (column_value sql_event ''type'' = PStr ''cloudify_log'' \<longrightarrow>
         map_of event ''event_type'' = None
         \<and> (included include ''logger'' \<longrightarrow>
              map_of event ''logger'' = Some (render (column_value sql_event ''logger'')))
         \<and> (included include ''level'' \<longrightarrow>
              map_of event ''level'' = Some (render (column_value sql_event ''level''))))"
proof -
  define ev where "ev =
       [(''timestamp'', render (column_value sql_event ''timestamp'')),
         (''message'',
            PDict ((''text'', column_value sql_event ''message'')
                   # (if column_value sql_event ''type'' = PStr ''cloudify_event''
                      then [(''arguments'', PNone)] else []))),
         (''message_code'', render (column_value sql_event ''message_code''))]
        @ (if column_value sql_event ''type'' = PStr ''cloudify_log'' then []
           else [(''event_type'', render (column_value sql_event ''event_type''))])
        @ (if column_value sql_event ''type'' = PStr ''cloudify_event'' then []
           else [(''logger'', render (column_value sql_event ''logger'')),
                 (''level'', render (column_value sql_event ''level''))])
        @ [(''type'', render (column_value sql_event ''type'')),
           (''@timestamp'', render (column_value sql_event ''timestamp'')),
           (''context'',
              PDict [(''deployment_id'', column_value sql_event ''deployment_id''),
                     (''operation'', column_value sql_event ''operation''),
                     (''node_id'', column_value sql_event ''node_id'')])]"
  let ?event = "filter (\<lambda>(key, v). included include key) ev"
  have res: "map_event_to_es include sql_event = Inr ?event"
    unfolding ev_def by (rule unified_row_mapped [OF assms])
  have mo: "map_of ?event k = (if included include k then map_of ev k else None)" for k
    by (rule map_of_filter_key)
  have ts: "map_of ev ''timestamp'' = Some (render (column_value sql_event ''timestamp''))"
    by (simp add: ev_def)
  have ats: "map_of ev ''@timestamp'' = Some (render (column_value sql_event ''timestamp''))"
    by (simp add: ev_def)
  have msg: "map_of ev ''message'' =
           Some (PDict ((''text'', column_value sql_event ''message'')
                        # (if column_value sql_event ''type'' = PStr ''cloudify_event''
                           then [(''arguments'', PNone)] else [])))"
    by (simp add: ev_def)
  have ctx: "map_of ev ''context'' =
           Some (PDict [(''deployment_id'', column_value sql_event ''deployment_id''),
                        (''operation'', column_value sql_event ''operation''),
                        (''node_id'', column_value sql_event ''node_id'')])"
    by (simp add: ev_def)
  have moved: "map_of ev ''deployment_id'' = None" "map_of ev ''operation'' = None"
    "map_of ev ''node_id'' = None"
    by (simp_all add: ev_def)
  have event: "map_of ev ''logger'' = None" "map_of ev ''level'' = None"
      "map_of ev ''event_type'' = Some (render (column_value sql_event ''event_type''))"
    if "column_value sql_event ''type'' = PStr ''cloudify_event''"
    using that by (simp_all add: ev_def)
  have log: "map_of ev ''event_type'' = None"
      "map_of ev ''logger'' = Some (render (column_value sql_event ''logger''))"
      "map_of ev ''level'' = Some (render (column_value sql_event ''level''))"
    if "column_value sql_event ''type'' = PStr ''cloudify_log''"
    using that by (simp_all add: ev_def)
  show ?thesis
    unfolding res
    by (intro exI [of _ ?event] conjI impI) (simp_all only: mo ts ats msg ctx moved event log if_True if_False if_cancel)
qed

theorem map_event_to_es_shape_witness:
  "\<exists>event. map_event_to_es None
       [(''timestamp'', PDatetime (datetime 2024 1 2 3 4 5 123456)),
        (''deployment_id'', PStr ''dep1''), (''message'', PStr ''started''),
        (''message_code'', PNone), (''event_type'', PStr ''workflow_started''),
        (''operation'', PNone), (''node_id'', PNone), (''logger'', PNone),
        (''level'', PNone), (''type'', PStr ''cloudify_event'')] = Inr event
     \<and> map_of event ''@timestamp'' = Some (PStr ''2024-01-02T03:04:05.123Z'')
     \<and> map_of event ''timestamp'' = Some (PStr ''2024-01-02T03:04:05.123Z'')
     \<and> map_of event ''message'' =
           Some (PDict [(''text'', PStr ''started''), (''arguments'', PNone)])
     \<and> map_of event ''context'' =
           Some (PDict [(''deployment_id'', PStr ''dep1''), (''operation'', PNone),
                        (''node_id'', PNone)])
     \<and> map_of event ''deployment_id'' = None
     \<and> map_of event ''logger'' = None \<and> map_of event ''level'' = None
     \<and> map_of event ''event_type'' = Some (PStr ''workflow_started'')"
  using map_event_to_es_shape [of
       "[(''timestamp'', PDatetime (datetime 2024 1 2 3 4 5 123456)),
        (''deployment_id'', PStr ''dep1''), (''message'', PStr ''started''),
        (''message_code'', PNone), (''event_type'', PStr ''workflow_started''),
        (''operation'', PNone), (''node_id'', PNone), (''logger'', PNone),
        (''level'', PNone), (''type'', PStr ''cloudify_event'')]" None]
  by (auto simp: included_def column_value_def format_timestamp_example [simplified])

text \<open>
  Claim C9. The mapper is a function of the projection and of the row alone: it takes no
  store and returns none. Its result under a projection is its result under \<^verbatim>\<open>None\<close> with
  the entries kept whose key passes \<^verbatim>\<open>_include is None or key in _include\<close>, and an error
  under \<^verbatim>\<open>None\<close> is the same error under every projection. So under a list of keys the
  record has exactly the keys that are both in the unprojected record and in the list,
  with the same values. For a unified row the unprojected record has all the keys of the
  shaped record, and the projection \<^verbatim>\<open>["message", "@timestamp"]\<close> gives a record with exactly
  these two keys.
\<close>

theorem projection_keeps_listed_keys:
  "map_event_to_es include sql_event =
     (case map_event_to_es None sql_event of
        Inl e \<Rightarrow> Inl e
      | Inr event \<Rightarrow> Inr (filter (\<lambda>(key, v). included include key) event))
   \<and> (map_event_to_es None sql_event = Inr event \<longrightarrow>
        (\<exists>projected. map_event_to_es (Some keys) sql_event = Inr projected
           \<and> set (map fst projected) = set (map fst event) \<inter> set keys
           \<and> (\<forall>key. map_of projected key =
                      (if key \<in> set keys then map_of event key else None))))
   \<and> (map fst sql_event =
        [''timestamp'', ''deployment_id'', ''message'', ''message_code'', ''event_type'',
         ''operation'', ''node_id'', ''logger'', ''level'', ''type''] \<longrightarrow>
        (\<exists>event projected.
           map_event_to_es None sql_event = Inr event
           \<and> set (map fst event) =
               {''timestamp'', ''@timestamp'', ''message'', ''message_code'', ''type'',
                ''context''}
               \<union> (if column_value sql_event ''type'' = PStr ''cloudify_log'' then {}
                   else {''event_type''})
               \<union> (if column_value sql_event ''type'' = PStr ''cloudify_event'' then {}
                   else {''logger'', ''level''})
           \<and> map_event_to_es (Some [''message'', ''@timestamp'']) sql_event = Inr projected
           \<and> set (map fst projected) = {''message'', ''@timestamp''}))"
proof (intro conjI impI)
  show "map_event_to_es include sql_event =
     (case map_event_to_es None sql_event of
        Inl e \<Rightarrow> Inl e
      | Inr event \<Rightarrow> Inr (filter (\<lambda>(key, v). included include key) event))"
    by (rule map_event_to_es_projection)
next
  assume none: "map_event_to_es None sql_event = Inr event"
  let ?projected = "filter (\<lambda>(key, v). key \<in> set keys) event"
  have "map_event_to_es (Some keys) sql_event = Inr ?projected"
    by (subst map_event_to_es_projection) (simp add: none included_def)
  moreover have "set (map fst ?projected) = set (map fst event) \<inter> set keys"
    by (rule keys_of_filter)
  moreover have "\<forall>key. map_of ?projected key =
                      (if key \<in> set keys then map_of event key else None)"
    by (simp add: map_of_filter_key)
  ultimately show "\<exists>projected. map_event_to_es (Some keys) sql_event = Inr projected
           \<and> set (map fst projected) = set (map fst event) \<inter> set keys
           \<and> (\<forall>key. map_of projected key =
                      (if key \<in> set keys then map_of event key else None))"
    by blast
next
  assume row: "map fst sql_event =
        [''timestamp'', ''deployment_id'', ''message'', ''message_code'', ''event_type'',
         ''operation'', ''node_id'', ''logger'', ''level'', ''type'']"
  from unified_row_mapped [OF row, of None]
  obtain event where none: "map_event_to_es None sql_event = Inr event" by blast
  note keys = unified_row_keys [OF row none]
  let ?projected = "filter (\<lambda>(key, v). key \<in> set [''message'', ''@timestamp'']) event"
  have some: "map_event_to_es (Some [''message'', ''@timestamp'']) sql_event = Inr ?projected"
    by (subst map_event_to_es_projection) (simp add: none included_def)
  have "set (map fst ?projected) = set (map fst event) \<inter> set [''message'', ''@timestamp'']"
    by (rule keys_of_filter)
  also have "\<dots> = {''message'', ''@timestamp''}"
    unfolding keys by auto
  finally have "set (map fst ?projected) = {''message'', ''@timestamp''}" .
  with none keys some
  show "\<exists>event projected.
           map_event_to_es None sql_event = Inr event
           \<and> set (map fst event) =
               {''timestamp'', ''@timestamp'', ''message'', ''message_code'', ''type'',
                ''context''}
               \<union> (if column_value sql_event ''type'' = PStr ''cloudify_log'' then {}
                   else {''event_type''})
               \<union> (if column_value sql_event ''type'' = PStr ''cloudify_event'' then {}
                   else {''logger'', ''level''})
           \<and> map_event_to_es (Some [''message'', ''@timestamp'']) sql_event = Inr projected
           \<and> set (map fst projected) = {''message'', ''@timestamp''}"
    by blast
qed

theorem projection_keeps_listed_keys_witness:
  "map_event_to_es (Some [''message'', ''@timestamp''])
     [(''timestamp'', PDatetime (datetime 2024 1 2 3 4 5 123456)),
      (''deployment_id'', PStr ''dep1''), (''message'', PStr ''line''),
      (''message_code'', PNone), (''event_type'', PNone),
      (''operation'', PStr ''create''), (''node_id'', PStr ''node1''),
      (''logger'', PStr ''ctx''), (''level'', PStr ''info''),
      (''type'', PStr ''cloudify_log'')] =
   Inr [(''message'', PDict [(''text'', PStr ''line'')]),
        (''@timestamp'', PStr ''2024-01-02T03:04:05.123Z'')]
   \<and> (\<exists>event.
        map_event_to_es None
          [(''timestamp'', PDatetime (datetime 2024 1 2 3 4 5 123456)),
           (''deployment_id'', PStr ''dep1''), (''message'', PStr ''line''),
           (''message_code'', PNone), (''event_type'', PNone),
           (''operation'', PStr ''create''), (''node_id'', PStr ''node1''),
           (''logger'', PStr ''ctx''), (''level'', PStr ''info''),
           (''type'', PStr ''cloudify_log'')] = Inr event
        \<and> set (map fst event) =
            {''timestamp'', ''@timestamp'', ''message'', ''message_code'', ''type'',
             ''context'', ''logger'', ''level''})"
proof -
  let ?row = "[(''timestamp'', PDatetime (datetime 2024 1 2 3 4 5 123456)),
      (''deployment_id'', PStr ''dep1''), (''message'', PStr ''line''),
      (''message_code'', PNone), (''event_type'', PNone),
      (''operation'', PStr ''create''), (''node_id'', PStr ''node1''),
      (''logger'', PStr ''ctx''), (''level'', PStr ''info''),
      (''type'', PStr ''cloudify_log'')]"
  let ?event = "[(''timestamp'', PStr ''2024-01-02T03:04:05.123Z''),
        (''message'', PDict [(''text'', PStr ''line'')]),
        (''message_code'', PNone), (''logger'', PStr ''ctx''), (''level'', PStr ''info''),
        (''type'', PStr ''cloudify_log''), (''@timestamp'', PStr ''2024-01-02T03:04:05.123Z''),
        (''context'', PDict [(''deployment_id'', PStr ''dep1''), (''operation'', PStr ''create''),
                            (''node_id'', PStr ''node1'')])]"
  have none: "map_event_to_es None ?row = Inr ?event"
    by (simp add: map_event_to_es_log format_timestamp_example [simplified])
  have ty: "column_value ?row ''type'' = PStr ''cloudify_log''"
    by (simp add: column_value_def)
  note inst = projection_keeps_listed_keys
                [of "Some [''message'', ''@timestamp'']" ?row ?event "[''message'', ''@timestamp'']"]
  from inst have "map_event_to_es (Some [''message'', ''@timestamp'']) ?row =
     Inr (filter (\<lambda>(key, v). included (Some [''message'', ''@timestamp'']) key) ?event)"
    by (simp only: none sum.case)
  then have a: "map_event_to_es (Some [''message'', ''@timestamp'']) ?row =
     Inr [(''message'', PDict [(''text'', PStr ''line'')]),
          (''@timestamp'', PStr ''2024-01-02T03:04:05.123Z'')]"
    by (simp add: included_def)
  have "map fst ?row =
        [''timestamp'', ''deployment_id'', ''message'', ''message_code'', ''event_type'',
         ''operation'', ''node_id'', ''logger'', ''level'', ''type'']"
    by simp
  with inst ty have "\<exists>event. map_event_to_es None ?row = Inr event
        \<and> set (map fst event) =
            {''timestamp'', ''@timestamp'', ''message'', ''message_code'', ''type'',
             ''context'', ''logger'', ''level''}"
    by (simp only: none) auto
  with a show ?thesis by blast
qed

text \<open>
  Claim C3. \<^verbatim>\<open>2024-01-02T03:04:05.123456\<close> is rendered as \<^verbatim>\<open>2024-01-02T03:04:05.123Z\<close>. A
  timestamp on a whole second is not rendered with millisecond precision:
  \<^verbatim>\<open>isoformat()\<close> prints no fraction when the microseconds are zero, so \<^verbatim>\<open>[:-3]\<close> removes the
  seconds, and a row with timestamp \<^verbatim>\<open>2024-01-02T03:04:06\<close> is mapped to a record whose
  \<^verbatim>\<open>timestamp\<close> and \<^verbatim>\<open>@timestamp\<close> are both \<^verbatim>\<open>2024-01-02T03:04Z\<close>.
\<close>

theorem whole_second_timestamp_loses_seconds:
  "render (PDatetime (datetime 2024 1 2 3 4 5 123456)) = PStr ''2024-01-02T03:04:05.123Z''
   \<and> render (PDatetime (datetime 2024 1 2 3 4 6 0)) = PStr ''2024-01-02T03:04Z''
   \<and> (\<exists>event.
        map_event_to_es None
          [(''timestamp'', PDatetime (datetime 2024 1 2 3 4 6 0)),
           (''deployment_id'', PStr ''dep1''), (''message'', PStr ''started''),
           (''message_code'', PNone), (''event_type'', PStr ''workflow_started''),
           (''operation'', PNone), (''node_id'', PNone), (''logger'', PNone),
           (''level'', PNone), (''type'', PStr ''cloudify_event'')] = Inr event
        \<and> map_of event ''timestamp'' = Some (PStr ''2024-01-02T03:04Z'')
        \<and> map_of event ''@timestamp'' = Some (PStr ''2024-01-02T03:04Z''))"
  by (simp add: map_event_to_es_event format_timestamp_example [simplified]
      format_timestamp_full_second [simplified])

end
